theory Spec2Isabelle
  imports Complex_Main "HOL-Library.Sublist"
begin

section \<open>Python values shared by the modules\<close>

text \<open>
  Exceptions are values: the class that the source (or the library it calls) raises,
  with the text that \<open>str(e)\<close> returns.
\<close>

datatype py_error =
    ValueError string
  | IndexError string
  | TypeError string
  | Exception string
  | OtherError string

fun str_of_error :: "py_error \<Rightarrow> string" where
  "str_of_error (ValueError s) = s"
| "str_of_error (IndexError s) = s"
| "str_of_error (TypeError s) = s"
| "str_of_error (Exception s) = s"
| "str_of_error (OtherError s) = s"

definition bind_err :: "py_error + 'a \<Rightarrow> ('a \<Rightarrow> py_error + 'b) \<Rightarrow> py_error + 'b" where
  "bind_err r f = (case r of Inl e \<Rightarrow> Inl e | Inr v \<Rightarrow> f v)"

text \<open>\<open>int(x)\<close> on a float: truncation towards zero.\<close>

definition py_int :: "real \<Rightarrow> int" where
  "py_int x = (if 0 \<le> x then \<lfloor>x\<rfloor> else \<lceil>x\<rceil>)"

text \<open>
  A dictionary comprehension \<open>{k: f(k) for k in ks}\<close>: the keys are visited in order, a
  later duplicate overwrites an earlier entry, and the first exception ends the loop.
\<close>

fun dict_comprehension ::
  "('k \<Rightarrow> py_error + 'v) \<Rightarrow> 'k list \<Rightarrow> ('k \<rightharpoonup> 'v) \<Rightarrow> py_error + ('k \<rightharpoonup> 'v)" where
  "dict_comprehension f [] acc = Inr acc"
| "dict_comprehension f (k # ks) acc =
     (case f k of Inl e \<Rightarrow> Inl e | Inr v \<Rightarrow> dict_comprehension f ks (acc(k \<mapsto> v)))"

section \<open>Statistics engine (benchmark/metrics/calculator.py)\<close>

text \<open>
  Python floats are modelled as \<^typ>\<open>real\<close>: the functions below are the exact-arithmetic
  reading of the source; rounding of IEEE doubles and NaN are outside the model.
  \<open>np.mean\<close>, \<open>np.std\<close> and \<open>np.percentile\<close> are NumPy library functions; they are
  modelled by their documented meaning: \<open>std = sqrt (sum (|a - mean a|\<^sup>2) / (N - ddof))\<close>,
  and for the default method \<open>linear\<close> of \<open>percentile\<close> the virtual index
  \<open>(N - 1) * q / 100\<close> into the sorted data, its floor and the next index (kept inside
  the array), and NumPy's two-sided interpolation formula between the two samples.
\<close>

definition np_mean :: "real list \<Rightarrow> real" where
  "np_mean a = sum_list a / real (length a)"

definition np_std :: "real list \<Rightarrow> nat \<Rightarrow> real" where
  "np_std a ddof =
     sqrt (sum_list (map (\<lambda>x. (x - np_mean a)\<^sup>2) a) / (real (length a) - real ddof))"

definition np_lerp :: "real \<Rightarrow> real \<Rightarrow> real \<Rightarrow> real" where
  "np_lerp a b t = (if 1 / 2 \<le> t then b - (b - a) * (1 - t) else a + (b - a) * t)"

definition np_percentile :: "real list \<Rightarrow> real \<Rightarrow> py_error + real" where
  "np_percentile a q =
     (if \<not> (0 \<le> q \<and> q \<le> 100)
      then Inl (ValueError ''Percentiles must be in the range [0, 100]'')
      else if a = [] then Inl (IndexError ''index -1 is out of bounds for axis 0 with size 0'')
      else
        let arr = sort a;
            n = length arr;
            virtual_index = real (n - 1) * (q / 100);
            previous_index = nat \<lfloor>virtual_index\<rfloor>;
            next_index = (if real (n - 1) \<le> virtual_index then previous_index
                          else previous_index + 1);
            gamma = virtual_index - real previous_index
        in Inr (np_lerp (arr ! previous_index) (arr ! next_index) gamma))"

definition calculate_percentiles :: "real list \<Rightarrow> int list \<Rightarrow> py_error + (int \<rightharpoonup> real)" where
  "calculate_percentiles values percentiles =
     (if values = [] then dict_comprehension (\<lambda>p. Inr 0) percentiles Map.empty
      else dict_comprehension (\<lambda>p. np_percentile values (real_of_int p)) percentiles Map.empty)"

definition calculate_mean :: "real list \<Rightarrow> real" where
  "calculate_mean values = (if values = [] then 0 else np_mean values)"

definition calculate_stddev :: "real list \<Rightarrow> real" where
  "calculate_stddev values = (if length values < 2 then 0 else np_std values 1)"

definition calculate_coefficient_of_variation :: "real list \<Rightarrow> real" where
  "calculate_coefficient_of_variation values =
     (let mean = calculate_mean values
      in if mean = 0 then 0 else (calculate_stddev values / mean) * 100)"

text \<open>
  \<open>verify_reproducibility\<close> builds its message with f-strings. The two float formats it
  uses are Python's, so they are parameters here: \<open>fmt_2f\<close> is \<open>format(x, ".2f")\<close> and
  \<open>fmt_float\<close> is \<open>str(x)\<close>.
\<close>

definition verify_reproducibility ::
  "(real \<Rightarrow> string) \<Rightarrow> (real \<Rightarrow> string) \<Rightarrow> real list \<Rightarrow> real \<Rightarrow> bool \<times> real \<times> string" where
  "verify_reproducibility fmt_2f fmt_float throughput_values max_cv_percent =
     (if length throughput_values < 2
      then (True, 0, ''Insufficient data for variance check'')
      else
        let cv = calculate_coefficient_of_variation throughput_values;
            mean = calculate_mean throughput_values
        in if cv \<le> max_cv_percent
           then (True, cv,
                 ''Variance within limits (CV: '' @ fmt_2f cv @ ''% <= ''
                   @ fmt_float max_cv_percent @ ''%)'')
           else (False, cv,
                 ''Variance too high (CV: '' @ fmt_2f cv @ ''% > ''
                   @ fmt_float max_cv_percent @ ''%)''))"

text \<open>
  The specification's wording of the sample standard deviation: the square root of the
  sum of squared deviations from the arithmetic mean, divided by \<open>n - 1\<close>.
\<close>

definition spec_sample_stddev :: "real list \<Rightarrow> real" where
  "spec_sample_stddev xs =
     sqrt ((\<Sum>x\<leftarrow>xs. (x - (\<Sum>y\<leftarrow>xs. y) / real (length xs))\<^sup>2) / real (length xs - 1))"

text \<open>
  The specification's wording of the percentile: the value at rank \<open>p / 100 * (n - 1)\<close> of
  the sorted samples, interpolated linearly between the two adjacent samples when the
  rank is not a whole number.
\<close>

definition spec_linear_percentile :: "real list \<Rightarrow> real \<Rightarrow> real" where
  "spec_linear_percentile values p =
     (let s = sort values;
          rank = p / 100 * real (length values - 1);
          i = nat \<lfloor>rank\<rfloor>;
          frac = rank - real i
      in if frac = 0 then s ! i else s ! i + frac * (s ! (i + 1) - s ! i))"

section \<open>Load tester (benchmark/load_test.py)\<close>

subsection \<open>Data model\<close>

text \<open>
  \<open>RequestMetrics\<close> with the defaults of the dataclass, \<open>TestResult\<close> and \<open>Statistics\<close>.
  Timestamps and durations are \<^typ>\<open>real\<close>; token counts are Python integers.
\<close>

record RequestMetrics =
  request_id :: string
  start_time :: real
  end_time :: real
  ttft_ms :: real
  e2e_latency_ms :: real
  output_tokens :: int
  input_tokens :: int
  tokens_per_second :: real
  error :: "string option"

text \<open>
  The configuration is the nested dictionary read from YAML. Only the keys the modelled
  functions read are kept; \<open>None\<close> is an absent key (or an absent section), for which the
  source falls back to the default written in its \<open>.get\<close> call.
\<close>

record config =
  cfg_prompt_type :: "string option"
  cfg_input_length :: "int option"
  cfg_fixed_prompt :: "string option"
  cfg_concurrency :: "int option"
  cfg_num_requests :: "int option"
  cfg_warmup_requests :: "int option"

record TestResult =
  config_snapshot :: config
  timestamp :: string
  duration_seconds :: real
  total_requests :: int
  successful_requests :: int
  failed_requests :: int
  throughput_rps :: real
  request_metrics :: "RequestMetrics list"

record Statistics =
  avg_latency_ms :: real
  p50_latency_ms :: real
  p95_latency_ms :: real
  p99_latency_ms :: real
  avg_ttft_ms :: real
  p50_ttft_ms :: real
  p95_ttft_ms :: real
  p99_ttft_ms :: real
  avg_tokens_per_second :: real
  stat_throughput_rps :: real

definition get_or :: "'a option \<Rightarrow> 'a \<Rightarrow> 'a" where
  "get_or v d = (case v of None \<Rightarrow> d | Some x \<Rightarrow> x)"

subsection \<open>Decimal text of integers (\<open>str(n)\<close> inside f-strings)\<close>

definition digit_char :: "nat \<Rightarrow> char" where
  "digit_char d = ''0123456789'' ! d"

function str_of_nat :: "nat \<Rightarrow> string" where
  "str_of_nat n = (if n < 10 then [digit_char n] else str_of_nat (n div 10) @ [digit_char (n mod 10)])"
  by pat_completeness auto
termination
  by (relation "measure id") auto

declare str_of_nat.simps [simp del]

definition str_of_int :: "int \<Rightarrow> string" where
  "str_of_int i = (if i < 0 then CHR ''-'' # str_of_nat (nat (- i)) else str_of_nat (nat i))"

subsection \<open>\<open>generate_prompt\<close>\<close>

definition base_phrase :: string where
  "base_phrase = ''Please explain the following concept in detail: ''"

definition topics :: "string list" where
  "topics =
     [''quantum computing and its applications'',
      ''machine learning model architectures'',
      ''distributed systems design patterns'',
      ''natural language processing techniques'',
      ''computer vision algorithms'',
      ''database optimization strategies'',
      ''microservices architecture principles'',
      ''cloud infrastructure management'',
      ''data structures and algorithms'',
      ''software engineering best practices'']"

text \<open>
  \<open>random.choice(topics)\<close>: the random source is an explicit argument, a natural number
  that selects the element.
\<close>

definition random_choice :: "nat \<Rightarrow> 'a list \<Rightarrow> 'a" where
  "random_choice rnd xs = xs ! (rnd mod length xs)"

text \<open>
  The loop \<open>while len(prompt) * 0.3 < input_length: prompt += f"Elaborate on {topic}. "\<close>.
  The comparison is made in exact arithmetic; a double-precision product can only differ
  at the boundary \<open>3 * len = 10 * input_length\<close>, where the loop may run once more, which
  the truncation that follows in \<open>generate_prompt\<close> removes again.
\<close>

function elaborate :: "string \<Rightarrow> int \<Rightarrow> string \<Rightarrow> string" where
  "elaborate topic input_length prompt =
     (if real (length prompt) * 0.3 < real_of_int input_length
      then elaborate topic input_length (prompt @ ''Elaborate on '' @ topic @ ''. '')
      else prompt)"
  by pat_completeness auto
termination
  by (relation "measure (\<lambda>(topic, input_length, prompt).
        nat (10 * input_length - 3 * int (length prompt)))") auto

declare elaborate.simps [simp del]

text \<open>The slice \<open>s[:k]\<close>: a negative bound counts from the end of the string.\<close>

definition slice_to :: "'a list \<Rightarrow> int \<Rightarrow> 'a list" where
  "slice_to s k = (if 0 \<le> k then take (nat k) s else take (nat (int (length s) + k)) s)"

definition generate_prompt :: "config \<Rightarrow> nat \<Rightarrow> string" where
  "generate_prompt cfg rnd =
     (let prompt_type = get_or (cfg_prompt_type cfg) ''random'';
          input_length = get_or (cfg_input_length cfg) 512;
          fixed = (if prompt_type = ''fixed'' then get_or (cfg_fixed_prompt cfg) [] else [])
      in if prompt_type = ''fixed'' \<and> fixed \<noteq> [] then fixed
         else
           let topic = random_choice rnd topics;
               prompt = elaborate topic input_length (base_phrase @ topic @ ''. '')
           in slice_to prompt (py_int (real_of_int input_length * 3)))"

subsection \<open>\<open>send_request\<close>\<close>

text \<open>
  What the request meets outside the program is an explicit argument:
  \<^item> the wall clock: \<open>now k\<close> is the value of the \<open>k\<close>-th call of \<open>time.time()\<close> that the
    request makes (counted from \<open>0\<close>);
  \<^item> the network: either entering \<open>client.stream(...)\<close> raises (connection error,
    timeout), or a response arrives with its status code, the outcome of
    \<open>(await response.aread()).decode()\<close>, the lines that \<open>aiter_lines()\<close> yields, and how
    the iteration ends (normally, or with an exception such as a read timeout);
  \<^item> \<open>json_delta data\<close>: what \<open>json.loads(data)\<close> followed by
    \<open>chunk.get("choices", [{}])[0].get("delta", {}).get("content", "")\<close> does with the text
    of one data line: a \<open>JSONDecodeError\<close>, another exception, or the content value.
  The URL, headers and payload built from the configuration only travel to the network
  and do not occur in the returned record.
\<close>

datatype py_value = PyStr string | PyOther bool string

fun truthy :: "py_value \<Rightarrow> bool" where
  "truthy (PyStr s) = (s \<noteq> [])"
| "truthy (PyOther b type_name) = b"

datatype chunk = JSONDecodeError | Delta py_value | ChunkError py_error

datatype stream_end = EndOfStream | StreamError py_error

record http_response =
  status_code :: int
  body :: "py_error + string"
  lines :: "string list"
  ending :: stream_end

datatype network = ConnectFailed py_error | Responded http_response

text \<open>\<open>"".join(output_text)\<close>: a \<open>TypeError\<close> at the first item that is not a string.\<close>

fun str_join :: "py_value list \<Rightarrow> nat \<Rightarrow> py_error + string" where
  "str_join [] i = Inr []"
| "str_join (PyStr s # vs) i =
     (case str_join vs (i + 1) of Inl e \<Rightarrow> Inl e | Inr t \<Rightarrow> Inr (s @ t))"
| "str_join (PyOther b type_name # vs) i =
     Inl (TypeError (''sequence item '' @ str_of_nat i @ '': expected str instance, ''
                     @ type_name @ '' found''))"

record stream_state =
  first_token_time :: "real option"
  output_text :: "py_value list"
  ticks :: nat

text \<open>
  The loop over the response lines. A failure carries the number of clock readings
  taken so far, since the handler reads the clock once more.
\<close>

fun read_lines ::
  "(string \<Rightarrow> chunk) \<Rightarrow> (nat \<Rightarrow> real) \<Rightarrow> string list \<Rightarrow> stream_end \<Rightarrow> stream_state
     \<Rightarrow> (py_error \<times> nat) + stream_state" where
  "read_lines json_delta now [] fin st =
     (case fin of EndOfStream \<Rightarrow> Inr st | StreamError e \<Rightarrow> Inl (e, ticks st))"
| "read_lines json_delta now (line # rest) fin st =
     (if prefix ''data: '' line then
        (let data = drop 6 line in
         if data = ''[DONE]'' then Inr st
         else
           (case json_delta data of
              JSONDecodeError \<Rightarrow> read_lines json_delta now rest fin st
            | ChunkError e \<Rightarrow> Inl (e, ticks st)
            | Delta content \<Rightarrow>
                (let st1 = (if truthy content \<and> first_token_time st = None
                            then st\<lparr>first_token_time := Some (now (ticks st)),
                                    ticks := ticks st + 1\<rparr>
                            else st)
                 in read_lines json_delta now rest fin
                      (st1\<lparr>output_text := output_text st1 @ [content]\<rparr>))))
      else read_lines json_delta now rest fin st)"

definition new_metrics :: "string \<Rightarrow> real \<Rightarrow> RequestMetrics" where
  "new_metrics rid t =
     \<lparr>request_id = rid, start_time = t, end_time = 0, ttft_ms = 0, e2e_latency_ms = 0,
      output_tokens = 0, input_tokens = 0, tokens_per_second = 0, error = None\<rparr>"

text \<open>
  The body of the \<open>try\<close> block: \<open>Inl\<close> is an exception that reaches the handler. The
  fields of \<open>metrics\<close> are assigned only after the stream has been read and joined.
\<close>

definition request_body ::
  "(string \<Rightarrow> chunk) \<Rightarrow> (nat \<Rightarrow> real) \<Rightarrow> string \<Rightarrow> network \<Rightarrow> RequestMetrics
     \<Rightarrow> (py_error \<times> nat) + RequestMetrics" where
  "request_body json_delta now prompt net metrics =
     (let start = now 1 in
      case net of
        ConnectFailed e \<Rightarrow> Inl (e, 2)
      | Responded response \<Rightarrow>
          if status_code response \<noteq> 200 then
            (case body response of
               Inl e \<Rightarrow> Inl (e, 2)
             | Inr error_text \<Rightarrow>
                 Inl (Exception (''HTTP '' @ str_of_int (status_code response) @ '': ''
                                 @ error_text), 2))
          else
            (case read_lines json_delta now (lines response) (ending response)
                    \<lparr>first_token_time = None, output_text = [], ticks = 2\<rparr> of
               Inl failure \<Rightarrow> Inl failure
             | Inr st \<Rightarrow>
                 (let end_ts = now (ticks st) in
                  case str_join (output_text st) 0 of
                    Inl e \<Rightarrow> Inl (e, ticks st + 1)
                  | Inr output_content \<Rightarrow>
                      (let m1 = metrics\<lparr>input_tokens := py_int (real (length prompt) / 4),
                                        output_tokens := py_int (real (length output_content) / 4)\<rparr>;
                           m2 = m1\<lparr>ttft_ms :=
                                     (case first_token_time st of
                                        Some t \<Rightarrow> if t \<noteq> 0 then (t - start) * 1000 else 0
                                      | None \<Rightarrow> 0)\<rparr>;
                           m3 = m2\<lparr>e2e_latency_ms := (end_ts - start) * 1000,
                                   end_time := end_ts\<rparr>
                       in Inr (if 0 < e2e_latency_ms m3
                               then m3\<lparr>tokens_per_second :=
                                         (real_of_int (output_tokens m3) / e2e_latency_ms m3) * 1000\<rparr>
                               else m3)))))"

definition send_request ::
  "(string \<Rightarrow> chunk) \<Rightarrow> (nat \<Rightarrow> real) \<Rightarrow> string \<Rightarrow> string \<Rightarrow> network \<Rightarrow> RequestMetrics" where
  "send_request json_delta now rid prompt net =
     (let metrics = new_metrics rid (now 0) in
      case request_body json_delta now prompt net metrics of
        Inl (e, k) \<Rightarrow> metrics\<lparr>error := Some (str_of_error e), end_time := now k\<rparr>
      | Inr m \<Rightarrow> m)"

subsection \<open>\<open>run_concurrent_test\<close>: the result of a run\<close>

text \<open>
  Each measured request \<open>idx\<close> has its own environment (random source, clock readings,
  network behaviour). \<open>asyncio.gather\<close> returns the results in task order whatever the
  completion order, so the list of all metrics is the list over \<open>range(num_requests)\<close>.
  The warm-up burst (\<open>warmup_phase\<close> below) runs before the measured phase without any
  bound on its parallelism; its results are thrown away, and neither \<open>generate_prompt\<close>
  nor \<open>send_request\<close> raises, so it leaves no trace in the result of the run.
  \<open>asyncio.Semaphore\<close> rejects a negative initial value; with no permit at all and at
  least one request no task is ever admitted and \<open>gather\<close> never returns
  (see the scheduler below).
\<close>

record request_env =
  env_rnd :: nat
  env_clock :: "nat \<Rightarrow> real"
  env_net :: network

datatype run_outcome = Raised py_error | Deadlock | Completed TestResult

text \<open>The truth value of \<open>m.error\<close>: \<open>None\<close> and the empty string are false.\<close>

definition error_truthy :: "RequestMetrics \<Rightarrow> bool" where
  "error_truthy m = (case error m of None \<Rightarrow> False | Some s \<Rightarrow> s \<noteq> [])"

definition bounded_request ::
  "(string \<Rightarrow> chunk) \<Rightarrow> config \<Rightarrow> nat \<Rightarrow> request_env \<Rightarrow> RequestMetrics" where
  "bounded_request json_delta cfg idx e =
     (let prompt = generate_prompt cfg (env_rnd e)
      in send_request json_delta (env_clock e) (''req-'' @ str_of_nat idx) prompt (env_net e))"

definition warmup_phase ::
  "(string \<Rightarrow> chunk) \<Rightarrow> config \<Rightarrow> (nat \<Rightarrow> request_env) \<Rightarrow> RequestMetrics list" where
  "warmup_phase json_delta cfg warm_env =
     (let warmup_requests = get_or (cfg_warmup_requests cfg) 10
      in if 0 < warmup_requests
         then map (\<lambda>i. send_request json_delta (env_clock (warm_env i))
                         (''warmup-'' @ str_of_nat i)
                         (generate_prompt cfg (env_rnd (warm_env i)))
                         (env_net (warm_env i)))
                [0..<nat warmup_requests]
         else [])"

definition run_concurrent_test ::
  "(string \<Rightarrow> chunk) \<Rightarrow> config \<Rightarrow> (nat \<Rightarrow> request_env) \<Rightarrow> real \<Rightarrow> real \<Rightarrow> string
     \<Rightarrow> run_outcome" where
  "run_concurrent_test json_delta cfg env wall_start wall_end iso_now =
     (let concurrency = get_or (cfg_concurrency cfg) 10;
          num_requests = get_or (cfg_num_requests cfg) 100
      in if concurrency < 0 then Raised (ValueError ''Semaphore initial value must be >= 0'')
         else if concurrency = 0 \<and> 0 < num_requests then Deadlock
         else
           (let all_metrics = map (\<lambda>idx. bounded_request json_delta cfg idx (env idx))
                                  [0..<nat num_requests];
                duration = wall_end - wall_start;
                successful = filter (\<lambda>m. \<not> error_truthy m) all_metrics;
                failed = filter error_truthy all_metrics;
                throughput = (if 0 < duration then real (length successful) / duration else 0)
            in Completed
                 \<lparr>config_snapshot = cfg, timestamp = iso_now, duration_seconds = duration,
                  total_requests = num_requests,
                  successful_requests = int (length successful),
                  failed_requests = int (length failed),
                  throughput_rps = throughput,
                  request_metrics = successful\<rparr>))"

subsection \<open>\<open>calculate_statistics\<close>\<close>

definition percentile :: "real list \<Rightarrow> int \<Rightarrow> py_error + real" where
  "percentile data p = (if data \<noteq> [] then np_percentile data (real_of_int p) else Inr 0)"

definition calculate_statistics :: "RequestMetrics list \<Rightarrow> real \<Rightarrow> py_error + Statistics" where
  "calculate_statistics metrics rps =
     (if metrics = [] then
        Inr \<lparr>avg_latency_ms = 0, p50_latency_ms = 0, p95_latency_ms = 0, p99_latency_ms = 0,
             avg_ttft_ms = 0, p50_ttft_ms = 0, p95_ttft_ms = 0, p99_ttft_ms = 0,
             avg_tokens_per_second = 0, stat_throughput_rps = rps\<rparr>
      else
        (let latencies = map e2e_latency_ms (filter (\<lambda>m. 0 < e2e_latency_ms m) metrics);
             ttfts = map ttft_ms (filter (\<lambda>m. 0 < ttft_ms m) metrics);
             tps = map tokens_per_second (filter (\<lambda>m. 0 < tokens_per_second m) metrics)
         in bind_err (percentile latencies 50) (\<lambda>l50.
            bind_err (percentile latencies 95) (\<lambda>l95.
            bind_err (percentile latencies 99) (\<lambda>l99.
            bind_err (percentile ttfts 50) (\<lambda>t50.
            bind_err (percentile ttfts 95) (\<lambda>t95.
            bind_err (percentile ttfts 99) (\<lambda>t99.
              Inr \<lparr>avg_latency_ms = (if latencies \<noteq> [] then np_mean latencies else 0),
                   p50_latency_ms = l50, p95_latency_ms = l95, p99_latency_ms = l99,
                   avg_ttft_ms = (if ttfts \<noteq> [] then np_mean ttfts else 0),
                   p50_ttft_ms = t50, p95_ttft_ms = t95, p99_ttft_ms = t99,
                   avg_tokens_per_second = (if tps \<noteq> [] then np_mean tps else 0),
                   stat_throughput_rps = rps\<rparr>))))))))"

section \<open>External metrics collector (benchmark/metrics/collector.py)\<close>

text \<open>
  A query template is text with \<open>{duration}\<close> fields; \<open>template.format(duration=d)\<close> puts
  the decimal text of the integer \<open>d\<close> in each field.
\<close>

datatype segment = Lit string | DurationField

fun format_segment :: "int \<Rightarrow> segment \<Rightarrow> string" where
  "format_segment d (Lit s) = s"
| "format_segment d DurationField = str_of_int d"

definition format_template :: "int \<Rightarrow> segment list \<Rightarrow> string" where
  "format_template d t = concat (map (format_segment d) t)"

definition VLLM_QUERIES :: "(string \<times> segment list) list" where
  "VLLM_QUERIES =
     [(''request_throughput'',
         [Lit ''rate(vllm:num_requests_total['', DurationField, Lit ''s])'']),
      (''avg_ttft'',
         [Lit ''histogram_quantile(0.5, rate(vllm:time_to_first_token_seconds_bucket['',
          DurationField, Lit ''s]))'']),
      (''p95_ttft'',
         [Lit ''histogram_quantile(0.95, rate(vllm:time_to_first_token_seconds_bucket['',
          DurationField, Lit ''s]))'']),
      (''avg_latency'',
         [Lit ''histogram_quantile(0.5, rate(vllm:time_per_request_seconds_bucket['',
          DurationField, Lit ''s]))'']),
      (''p95_latency'',
         [Lit ''histogram_quantile(0.95, rate(vllm:time_per_request_seconds_bucket['',
          DurationField, Lit ''s]))'']),
      (''gpu_cache_usage'', [Lit ''avg(vllm:gpu_cache_usage_perc)'']),
      (''queue_size'', [Lit ''avg(vllm:waiting_queue_size)'']),
      (''token_throughput'',
         [Lit ''rate(vllm:num_generation_tokens['', DurationField, Lit ''s])''])]"

text \<open>
  The JSON that the backend returns, as far as the collector reads it: the \<open>data\<close>
  object with its optional \<open>result\<close> list, each entry with its optional \<open>values\<close> list of
  \<open>[timestamp, text]\<close> pairs. \<open>None\<close> is an absent key. The backend is an explicit
  argument: for a query and a window it makes \<open>client.get\<close>, \<open>raise_for_status\<close> or
  \<open>response.json\<close> raise, or answers with the \<open>status\<close> and \<open>data\<close> members of the decoded
  reply. \<open>py_float\<close> is Python's \<open>float\<close> on a string.
\<close>

record series =
  values_field :: "(real \<times> string) list option"

record prom_data =
  result_field :: "series list option"

datatype prom_reply = RequestFailed py_error | JsonReply "string option" "prom_data option"

definition query_prometheus ::
  "(string \<Rightarrow> real \<Rightarrow> real \<Rightarrow> prom_reply) \<Rightarrow> string \<Rightarrow> real \<Rightarrow> real \<Rightarrow> prom_data option" where
  "query_prometheus backend query range_start range_end =
     (case backend query range_start range_end of
        RequestFailed e \<Rightarrow> None
      | JsonReply status data \<Rightarrow>
          if status = Some ''success'' then Some (get_or data \<lparr>result_field = None\<rparr>)
          else None)"

text \<open>The list comprehension \<open>[float(v[1]) for v in values if v[1] != "None"]\<close>.\<close>

fun numeric_values_of ::
  "(string \<Rightarrow> py_error + real) \<Rightarrow> (real \<times> string) list \<Rightarrow> py_error + real list" where
  "numeric_values_of py_float [] = Inr []"
| "numeric_values_of py_float (v # vs) =
     (if snd v \<noteq> ''None''
      then bind_err (py_float (snd v)) (\<lambda>x.
           bind_err (numeric_values_of py_float vs) (\<lambda>xs. Inr (x # xs)))
      else numeric_values_of py_float vs)"

text \<open>
  The body of the loop of \<open>collect_vllm_metrics\<close> for one query result: the value stored
  under the metric name, where \<open>None\<close> is Python's \<open>None\<close>.
\<close>

definition metric_of_result ::
  "(string \<Rightarrow> py_error + real) \<Rightarrow> prom_data option \<Rightarrow> py_error + real option" where
  "metric_of_result py_float result =
     (case result of
        None \<Rightarrow> Inr None
      | Some d \<Rightarrow>
          (case result_field d of
             None \<Rightarrow> Inr None
           | Some [] \<Rightarrow> Inr None
           | Some (first # others) \<Rightarrow>
               (let values = get_or (values_field first) [] in
                if values \<noteq> [] then
                  bind_err (numeric_values_of py_float values) (\<lambda>numeric_values.
                    if numeric_values \<noteq> []
                    then Inr (Some (sum_list numeric_values / real (length numeric_values)))
                    else Inr (Some 0))
                else Inr (Some 0))))"

fun collect_loop ::
  "(string \<Rightarrow> real \<Rightarrow> real \<Rightarrow> prom_reply) \<Rightarrow> (string \<Rightarrow> py_error + real) \<Rightarrow> int \<Rightarrow> real \<Rightarrow> real
     \<Rightarrow> (string \<times> segment list) list \<Rightarrow> (string \<rightharpoonup> real option)
     \<Rightarrow> py_error + (string \<rightharpoonup> real option)" where
  "collect_loop backend py_float d start_buffered end_buffered [] acc = Inr acc"
| "collect_loop backend py_float d start_buffered end_buffered
     ((metric_name, query_template) # rest) acc =
     (let query = format_template d query_template;
          result = query_prometheus backend query start_buffered end_buffered
      in case metric_of_result py_float result of
           Inl e \<Rightarrow> Inl e
         | Inr v \<Rightarrow>
             collect_loop backend py_float d start_buffered end_buffered rest
               (acc(metric_name \<mapsto> v)))"

record PrometheusMetrics =
  pm_timestamp :: string
  query_duration_seconds :: real
  pm_metrics :: "string \<rightharpoonup> real option"

definition collect_vllm_metrics ::
  "(string \<Rightarrow> real \<Rightarrow> real \<Rightarrow> prom_reply) \<Rightarrow> (string \<Rightarrow> py_error + real) \<Rightarrow> real \<Rightarrow> real
     \<Rightarrow> string \<Rightarrow> real \<Rightarrow> py_error + PrometheusMetrics" where
  "collect_vllm_metrics backend py_float test_start_time test_end_time iso_now collect_duration =
     (let duration = test_end_time - test_start_time;
          start_buffered = test_start_time - 5;
          end_buffered = test_end_time + 5
      in case collect_loop backend py_float (py_int duration) start_buffered end_buffered
                VLLM_QUERIES Map.empty of
           Inl e \<Rightarrow> Inl e
         | Inr m \<Rightarrow>
             Inr \<lparr>pm_timestamp = iso_now, query_duration_seconds = collect_duration,
                  pm_metrics = m\<rparr>)"

section \<open>The concurrency gate of the measured phase (\<open>run_concurrent_test\<close>)\<close>

text \<open>
  The measured phase creates one coroutine \<open>bounded_request(i)\<close> per request and hands
  them all to \<open>asyncio.gather\<close>. Each coroutine is
  \<^verbatim>\<open>async with semaphore: prompt = generate_prompt(config); return await send_request(...)\<close>.
  The event loop runs one task at a time and switches only at an \<open>await\<close>, so the run is
  a sequence of two kinds of events: a task enters the \<open>async with\<close> block (it has
  acquired the semaphore, and its call of \<open>send_request\<close> is in flight until it leaves),
  and a task leaves the block (its \<open>send_request\<close> has returned, by a result or by a
  recorded error, and the semaphore is released). \<open>asyncio.Semaphore(C)\<close> is a counter
  that starts at \<open>C\<close> (a negative \<open>C\<close> is rejected), \<open>acquire\<close> proceeds only while the
  counter is positive and decrements it, \<open>release\<close> increments it. Which of several
  waiting tasks proceeds is the event loop's choice; the model allows any of them.
\<close>

datatype task_status = Waiting | InFlight | Finished

record gate =
  permits :: nat
  tasks :: "task_status list"

datatype event = Acquire nat | Release nat

definition start_measured_phase :: "int \<Rightarrow> int \<Rightarrow> py_error + gate" where
  "start_measured_phase concurrency num_requests =
     (if concurrency < 0 then Inl (ValueError ''Semaphore initial value must be >= 0'')
      else Inr \<lparr>permits = nat concurrency, tasks = replicate (nat num_requests) Waiting\<rparr>)"

fun step :: "event \<Rightarrow> gate \<Rightarrow> gate option" where
  "step (Acquire i) g =
     (if i < length (tasks g) \<and> tasks g ! i = Waiting \<and> 0 < permits g
      then Some (g\<lparr>permits := permits g - 1, tasks := (tasks g)[i := InFlight]\<rparr>)
      else None)"
| "step (Release i) g =
     (if i < length (tasks g) \<and> tasks g ! i = InFlight
      then Some (g\<lparr>permits := permits g + 1, tasks := (tasks g)[i := Finished]\<rparr>)
      else None)"

fun run_events :: "event list \<Rightarrow> gate \<Rightarrow> gate option" where
  "run_events [] g = Some g"
| "run_events (e # es) g = (case step e g of None \<Rightarrow> None | Some g' \<Rightarrow> run_events es g')"

text \<open>The number of calls of \<open>send_request\<close> that are in flight.\<close>

definition in_flight :: "gate \<Rightarrow> nat" where
  "in_flight g = length (filter (\<lambda>s. s = InFlight) (tasks g))"

section \<open>Notions used to state the properties\<close>

text \<open>
  The seed sentence that \<open>generate_prompt\<close> starts from, the condition under which it
  returns the configured fixed prompt, and a configuration that asks for a generated
  prompt of a given target length.
\<close>

definition seed_sentence :: "nat \<Rightarrow> string" where
  "seed_sentence rnd = base_phrase @ random_choice rnd topics @ ''. ''"

definition uses_fixed :: "config \<Rightarrow> bool" where
  "uses_fixed cfg \<longleftrightarrow>
     get_or (cfg_prompt_type cfg) ''random'' = ''fixed'' \<and> get_or (cfg_fixed_prompt cfg) [] \<noteq> []"

definition random_cfg :: "int \<Rightarrow> config" where
  "random_cfg n = \<lparr>cfg_prompt_type = Some ''random'', cfg_input_length = Some n,
     cfg_fixed_prompt = None, cfg_concurrency = None, cfg_num_requests = None,
     cfg_warmup_requests = None\<rparr>"

text \<open>
  The invariant of the loop over the response lines: at least the two readings before
  the stream have been taken, and a recorded first-token time is one of the readings
  taken inside the loop.
\<close>

definition stream_inv :: "(nat \<Rightarrow> real) \<Rightarrow> stream_state \<Rightarrow> bool" where
  "stream_inv now st \<longleftrightarrow>
     2 \<le> ticks st
     \<and> (\<forall>t. first_token_time st = Some t \<longrightarrow> (\<exists>k. 2 \<le> k \<and> k < ticks st \<and> t = now k))"

text \<open>
  Concrete exchanges: a response with status 500 and a text body; a response with status
  200 whose body is not a stream of JSON data lines; and a well-formed stream of two
  content chunks, read by a \<open>json_delta\<close> that takes the text of the line as the content.
\<close>

definition failing_response :: http_response where
  "failing_response =
     \<lparr>status_code = 500, body = Inr ''Internal Server Error'', lines = [],
      ending = EndOfStream\<rparr>"

definition non_json_response :: http_response where
  "non_json_response =
     \<lparr>status_code = 200, body = Inr ''<html>Bad Gateway</html>'',
      lines = [''<html>Bad Gateway</html>'', ''data: {choices: [''],
      ending = EndOfStream\<rparr>"

definition two_chunk_response :: http_response where
  "two_chunk_response =
     \<lparr>status_code = 200, body = Inr [],
      lines = [''data: abcd'', '''', ''data: efgh'', ''data: [DONE]''],
      ending = EndOfStream\<rparr>"

text \<open>
  The list that \<open>asyncio.gather\<close> returns in a run: one record per dispatched request,
  in task order.
\<close>

definition all_metrics_of :: "(string \<Rightarrow> chunk) \<Rightarrow> config \<Rightarrow> (nat \<Rightarrow> request_env) \<Rightarrow> RequestMetrics list" where
  "all_metrics_of json_delta cfg env =
     map (\<lambda>idx. bounded_request json_delta cfg idx (env idx))
       [0..<nat (get_or (cfg_num_requests cfg) 100)]"

text \<open>
  A run of two requests with a fixed prompt, the first answered by the two-chunk stream
  and the second by the status-500 response; and the same configuration with a negative
  number of requests.
\<close>

definition two_request_cfg :: config where
  "two_request_cfg =
     \<lparr>cfg_prompt_type = Some ''fixed'', cfg_input_length = None,
      cfg_fixed_prompt = Some ''12345678'', cfg_concurrency = Some 1,
      cfg_num_requests = Some 2, cfg_warmup_requests = Some 0\<rparr>"

definition two_request_env :: "nat \<Rightarrow> request_env" where
  "two_request_env idx =
     \<lparr>env_rnd = 0, env_clock = real,
      env_net = (if idx = 0 then Responded two_chunk_response
                 else Responded failing_response)\<rparr>"

definition negative_cfg :: config where
  "negative_cfg = two_request_cfg\<lparr>cfg_num_requests := Some (- 1)\<rparr>"

text \<open>
  The samples of one field that \<open>calculate_statistics\<close> keeps (the positive ones), and
  the percentile it reports for a list of samples: \<open>0\<close> for no sample, otherwise the
  linear-interpolation percentile.
\<close>

definition positive :: "(RequestMetrics \<Rightarrow> real) \<Rightarrow> RequestMetrics list \<Rightarrow> real list" where
  "positive field metrics = map field (filter (\<lambda>m. 0 < field m) metrics)"

definition percentile_or_zero :: "real list \<Rightarrow> int \<Rightarrow> real" where
  "percentile_or_zero data p =
     (if data = [] then 0 else spec_linear_percentile data (real_of_int p))"

definition stalled_metrics :: RequestMetrics where
  "stalled_metrics =
     \<lparr>request_id = ''req-1'', start_time = 0, end_time = 1 / 2, ttft_ms = 0,
      e2e_latency_ms = 500, output_tokens = 0, input_tokens = 2, tokens_per_second = 0,
      error = None\<rparr>"

definition streamed_metrics :: RequestMetrics where
  "streamed_metrics =
     \<lparr>request_id = ''req-0'', start_time = 0, end_time = 3, ttft_ms = 1000,
      e2e_latency_ms = 2000, output_tokens = 2, input_tokens = 2, tokens_per_second = 1,
      error = None\<rparr>"

text \<open>
  For the collector: the value stored under a metric name in the outcome of a
  collection; a query result without any series (the query failed, or the reply has no
  \<open>result\<close> list or an empty one); a query result whose first series has no samples; and
  two backends, one that answers every query with one series without samples and one
  that cannot be reached.
\<close>

definition collected_metric :: "py_error + PrometheusMetrics \<Rightarrow> string \<Rightarrow> real option option" where
  "collected_metric r name = (case r of Inl e \<Rightarrow> None | Inr pm \<Rightarrow> pm_metrics pm name)"

definition no_series :: "prom_data option \<Rightarrow> bool" where
  "no_series result =
     (case result of
        None \<Rightarrow> True
      | Some d \<Rightarrow> (case result_field d of None \<Rightarrow> True | Some ss \<Rightarrow> ss = []))"

definition no_samples :: "prom_data option \<Rightarrow> bool" where
  "no_samples result =
     (case result of
        None \<Rightarrow> False
      | Some d \<Rightarrow>
          (case result_field d of
             None \<Rightarrow> False
           | Some [] \<Rightarrow> False
           | Some (first # others) \<Rightarrow> get_or (values_field first) [] = []))"

definition empty_series_backend :: "string \<Rightarrow> real \<Rightarrow> real \<Rightarrow> prom_reply" where
  "empty_series_backend query range_start range_end =
     JsonReply (Some ''success'') (Some \<lparr>result_field = Some [\<lparr>values_field = Some []\<rparr>]\<rparr>)"

definition unreachable_backend :: "string \<Rightarrow> real \<Rightarrow> real \<Rightarrow> prom_reply" where
  "unreachable_backend query range_start range_end =
     RequestFailed (OtherError ''[Errno 111] Connection refused'')"

text \<open>
  Two wall clocks that are set back while a request is running: the first between the
  start of the request and its first chunk, the second between the first chunk and the
  end of the stream.
\<close>

definition backward_clock :: "nat \<Rightarrow> real" where
  "backward_clock k = (if k \<le> 1 then 10 else 5)"

definition late_backward_clock :: "nat \<Rightarrow> real" where
  "late_backward_clock k = (if k \<le> 1 then 0 else if k = 2 then 10 else 5)"

section \<open>Properties of the statistics engine\<close>

lemma calculate_stddev_80_120: "calculate_stddev [80, 120] = sqrt 800"
  by (simp add: calculate_stddev_def np_std_def np_mean_def)

lemma sqrt_800_bounds: "28.28425 < sqrt 800" "sqrt 800 < 28.28435"
proof -
  show "28.28425 < sqrt 800"
    by (rule real_less_rsqrt) (simp add: power2_eq_square)
  show "sqrt 800 < 28.28435"
    by (rule real_less_lsqrt) (simp_all add: power2_eq_square)
qed

text \<open>
  C9. \<open>calculate_stddev\<close> is the sample (divisor \<open>n - 1\<close>) standard deviation and is \<open>0\<close>
  for fewer than two values, in particular for every singleton; on \<open>[80, 120]\<close> it is
  \<open>28.2843\<close> to four decimals, the coefficient of variation of \<open>[80, 120]\<close> is \<open>28.28\<close> to
  two decimals, and the coefficient of variation is \<open>0\<close> whenever the mean is \<open>0\<close>.
\<close>

theorem calculate_stddev_sample:
  "(length values < 2 \<longrightarrow> calculate_stddev values = 0)
   \<and> (2 \<le> length values \<longrightarrow> calculate_stddev values = spec_sample_stddev values)
   \<and> calculate_stddev [x] = 0
   \<and> \<bar>calculate_stddev [80, 120] - 28.2843\<bar> < 0.00005
   \<and> \<bar>calculate_coefficient_of_variation [80, 120] - 28.28\<bar> < 0.005
   \<and> (calculate_mean values = 0 \<longrightarrow> calculate_coefficient_of_variation values = 0)"
proof -
  have small: "length values < 2 \<longrightarrow> calculate_stddev values = 0"
    by (simp add: calculate_stddev_def)
  have bessel: "2 \<le> length values \<longrightarrow> calculate_stddev values = spec_sample_stddev values"
  proof
    assume n: "2 \<le> length values"
    then have "real (length values) - 1 = real (length values - 1)"
      by simp
    with n show "calculate_stddev values = spec_sample_stddev values"
      by (simp add: calculate_stddev_def np_std_def np_mean_def spec_sample_stddev_def)
  qed
  have single: "calculate_stddev [x] = 0"
    by (simp add: calculate_stddev_def)
  have sd: "\<bar>calculate_stddev [80, 120] - 28.2843\<bar> < 0.00005"
    using sqrt_800_bounds by (simp add: calculate_stddev_80_120 abs_if)
  have "calculate_mean [80, 120] = 100"
    by (simp add: calculate_mean_def np_mean_def)
  then have "calculate_coefficient_of_variation [80, 120] = sqrt 800"
    by (simp add: calculate_coefficient_of_variation_def calculate_stddev_80_120)
  then have cv: "\<bar>calculate_coefficient_of_variation [80, 120] - 28.28\<bar> < 0.005"
    using sqrt_800_bounds by (simp add: abs_if)
  have zero: "calculate_mean values = 0 \<longrightarrow> calculate_coefficient_of_variation values = 0"
    by (simp add: calculate_coefficient_of_variation_def)
  from small bessel single sd cv zero show ?thesis by blast
qed

theorem calculate_stddev_sample_witness:
  "length [80, 120 :: real] = 2
   \<and> calculate_stddev [80, 120] = spec_sample_stddev [80, 120]
   \<and> calculate_mean [-1, 1] = 0
   \<and> calculate_coefficient_of_variation [-1, 1] = 0"
proof -
  have m: "calculate_mean [-1, 1] = 0"
    by (simp add: calculate_mean_def np_mean_def)
  show ?thesis
    using calculate_stddev_sample [of "[80, 120]" 0] calculate_stddev_sample [of "[-1, 1]" 0] m
    by simp
qed

lemma dict_comprehension_total:
  "(\<And>k. k \<in> set ks \<Longrightarrow> f k = Inr (g k)) \<Longrightarrow>
   dict_comprehension f ks acc = Inr (\<lambda>k. if k \<in> set ks then Some (g k) else acc k)"
proof (induction ks arbitrary: acc)
  case Nil
  then show ?case by simp
next
  case (Cons k ks)
  have "dict_comprehension f ks (acc(k \<mapsto> g k))
          = Inr (\<lambda>j. if j \<in> set ks then Some (g j) else (acc(k \<mapsto> g k)) j)"
    by (rule Cons.IH) (simp add: Cons.prems)
  then show ?case
    by (auto simp: Cons.prems fun_eq_iff)
qed

lemma np_lerp_linear: "np_lerp a b t = a + t * (b - a)"
  by (simp add: np_lerp_def algebra_simps)

lemma np_percentile_linear:
  assumes "values \<noteq> []" "0 \<le> p" "p \<le> 100"
  shows "np_percentile values p = Inr (spec_linear_percentile values p)"
proof -
  define n where "n = length values"
  define r where "r = real (n - 1) * (p / 100)"
  define i where "i = nat \<lfloor>r\<rfloor>"
  have r0: "0 \<le> r" using assms by (simp add: r_def)
  have rn: "r \<le> real (n - 1)"
    using assms by (simp add: r_def mult_left_mono)
  have e1: "real (length (sort values) - 1) * (p / 100) = r"
    by (simp add: r_def n_def)
  have e2: "p / 100 * real (length values - 1) = r"
    by (simp add: r_def n_def)
  have top: "real (n - 1) \<le> r \<Longrightarrow> r - real i = 0"
    using rn by (simp add: i_def)
  show ?thesis
    unfolding np_percentile_def spec_linear_percentile_def Let_def e1 e2 i_def[symmetric]
      np_lerp_linear
    using assms(1) top by (simp add: assms(2,3) n_def)
qed

lemma sublist_in_message: "sublist xs (a @ xs @ b)" "sublist ys (a @ xs @ b @ ys @ c)"
proof -
  show "sublist xs (a @ xs @ b)" by simp
  have "a @ xs @ b @ ys @ c = (a @ xs @ b) @ ys @ c" by simp
  then show "sublist ys (a @ xs @ b @ ys @ c)"
    by (simp only: sublist_appendI)
qed

text \<open>
  C7. With fewer than two measurements \<open>verify_reproducibility\<close> returns
  \<open>(True, 0.0, "Insufficient data for variance check")\<close>. With two or more it returns the
  coefficient of variation of the measurements, the flag is true exactly when that value
  is at most \<open>max_cv_percent\<close> and false exactly when it exceeds it, and the message
  contains the formatted coefficient of variation and the formatted threshold.
\<close>

theorem verify_reproducibility_cases:
  "(length tv < 2 \<longrightarrow>
      verify_reproducibility f g tv mx = (True, 0, ''Insufficient data for variance check''))
   \<and> (2 \<le> length tv \<longrightarrow>
        (case verify_reproducibility f g tv mx of (ok, cv, msg) \<Rightarrow>
           cv = calculate_coefficient_of_variation tv
           \<and> (ok \<longleftrightarrow> cv \<le> mx) \<and> (\<not> ok \<longleftrightarrow> mx < cv)
           \<and> sublist (f cv) msg \<and> sublist (g mx) msg))"
proof -
  define cv where "cv = calculate_coefficient_of_variation tv"
  have within: "sublist (f cv) (''Variance within limits (CV: '' @ f cv @ ''% <= '' @ g mx @ ''%)'')"
    "sublist (g mx) (''Variance within limits (CV: '' @ f cv @ ''% <= '' @ g mx @ ''%)'')"
    by (rule sublist_in_message)+
  have too_high: "sublist (f cv) (''Variance too high (CV: '' @ f cv @ ''% > '' @ g mx @ ''%)'')"
    "sublist (g mx) (''Variance too high (CV: '' @ f cv @ ''% > '' @ g mx @ ''%)'')"
    by (rule sublist_in_message)+
  show ?thesis
    using within too_high
    by (simp add: verify_reproducibility_def Let_def not_le cv_def)
qed

theorem verify_reproducibility_cases_witness:
  "length [42 :: real] < 2
   \<and> verify_reproducibility (\<lambda>_. ''cv'') (\<lambda>_. ''max'') [42] 10
       = (True, 0, ''Insufficient data for variance check'')
   \<and> 2 \<le> length [80, 120 :: real]
   \<and> \<not> fst (verify_reproducibility (\<lambda>_. ''cv'') (\<lambda>_. ''max'') [80, 120] 10)
   \<and> sublist ''max'' (snd (snd (verify_reproducibility (\<lambda>_. ''cv'') (\<lambda>_. ''max'') [80, 120] 10)))"
proof -
  have "calculate_mean [80, 120] = 100"
    by (simp add: calculate_mean_def np_mean_def)
  then have cv: "calculate_coefficient_of_variation [80, 120] = sqrt 800"
    by (simp add: calculate_coefficient_of_variation_def calculate_stddev_80_120)
  have big: "10 < sqrt 800"
    using sqrt_800_bounds(1) by simp
  show ?thesis
    using verify_reproducibility_cases [of "[42]" "\<lambda>_. ''cv''" "\<lambda>_. ''max''" 10]
      verify_reproducibility_cases [of "[80, 120]" "\<lambda>_. ''cv''" "\<lambda>_. ''max''" 10] cv big
    by (simp add: split_beta)
qed

text \<open>
  C8. \<open>calculate_percentiles\<close> returns \<open>0.0\<close> for every requested percentile when the
  input is empty; for non-empty input and requested percentiles within \<open>[0, 100]\<close> (outside
  that range \<open>np.percentile\<close> raises) every requested percentile is mapped to the
  linear-interpolation percentile as the specification words it; and
  \<open>calculate_percentiles([10,20,30,40,50], [50]) = {50: 30.0}\<close>.
\<close>

theorem calculate_percentiles_linear:
  "calculate_percentiles [] ps = Inr (\<lambda>p. if p \<in> set ps then Some 0 else None)
   \<and> (values \<noteq> [] \<and> (\<forall>p \<in> set ps. 0 \<le> p \<and> p \<le> 100) \<longrightarrow>
        calculate_percentiles values ps
          = Inr (\<lambda>p. if p \<in> set ps then Some (spec_linear_percentile values (real_of_int p))
                      else None))
   \<and> calculate_percentiles [10, 20, 30, 40, 50] [50] = Inr [50 \<mapsto> 30]"
proof -
  have empty: "calculate_percentiles [] ps = Inr (\<lambda>p. if p \<in> set ps then Some 0 else None)"
    unfolding calculate_percentiles_def
    using dict_comprehension_total [of ps "\<lambda>p. Inr 0" "\<lambda>p. 0" Map.empty] by simp
  have linear: "calculate_percentiles values ps
          = Inr (\<lambda>p. if p \<in> set ps then Some (spec_linear_percentile values (real_of_int p))
                      else None)"
    if "values \<noteq> []" and "\<forall>p \<in> set ps. 0 \<le> p \<and> p \<le> 100"
  proof -
    have "np_percentile values (real_of_int p)
            = Inr (spec_linear_percentile values (real_of_int p))" if "p \<in> set ps" for p
      using that \<open>values \<noteq> []\<close> \<open>\<forall>p \<in> set ps. 0 \<le> p \<and> p \<le> 100\<close>
      by (intro np_percentile_linear) auto
    then show ?thesis
      unfolding calculate_percentiles_def using \<open>values \<noteq> []\<close>
      by (simp add: dict_comprehension_total)
  qed
  have example: "calculate_percentiles [10, 20, 30, 40, 50] [50] = Inr [50 \<mapsto> 30]"
    by (simp add: calculate_percentiles_def np_percentile_def np_lerp_def Let_def)
  from empty linear example show ?thesis by blast
qed

theorem calculate_percentiles_linear_witness:
  "[1, 2 :: real] \<noteq> [] \<and> (0 :: int) \<le> 95 \<and> (95 :: int) \<le> 100
   \<and> calculate_percentiles [1, 2] [95]
       = Inr (\<lambda>p. if p \<in> set [95] then Some (spec_linear_percentile [1, 2] (real_of_int p))
                   else None)
   \<and> spec_linear_percentile [1, 2] 95 = 1.95"
proof -
  have v: "spec_linear_percentile [1, 2] 95 = 1.95"
    by (simp add: spec_linear_percentile_def Let_def)
  show ?thesis
    using calculate_percentiles_linear [of "[95]" "[1, 2]"] v by simp
qed

section \<open>Properties of the prompt generator\<close>

lemma elaborate_nonpos: "input_length \<le> 0 \<Longrightarrow> elaborate topic input_length p = p"
proof -
  assume "input_length \<le> 0"
  then have "real_of_int input_length \<le> 0" by simp
  moreover have "0 \<le> real (length p) * 0.3" by simp
  ultimately have "\<not> real (length p) * 0.3 < real_of_int input_length" by linarith
  then show ?thesis by (subst elaborate.simps) simp
qed

lemma elaborate_length: "3 * input_length \<le> int (length (elaborate topic input_length p))"
proof (induction topic input_length p rule: elaborate.induct)
  case (1 topic input_length prompt)
  show ?case
  proof (cases "real (length prompt) * 0.3 < real_of_int input_length")
    case True
    then show ?thesis using "1.IH" by (subst elaborate.simps) simp
  next
    case False
    then have "real_of_int input_length \<le> real (length prompt) * 0.3" by simp
    then have "3 * real_of_int input_length \<le> real (length prompt)" by simp
    then have "3 * input_length \<le> int (length prompt)" by linarith
    with False show ?thesis by (subst elaborate.simps) simp
  qed
qed

lemma py_int_of_int: "py_int (real_of_int i * 3) = 3 * i"
proof -
  have "real_of_int i * 3 = real_of_int (3 * i)" by simp
  then show ?thesis unfolding py_int_def by (simp only: floor_of_int ceiling_of_int if_cancel)
qed

text \<open>
  C3 (as amended). \<open>generate_prompt\<close> has no failing branch. It returns the configured
  fixed prompt when the mode is \<open>fixed\<close> and that prompt is non-empty. Otherwise, for a
  target \<open>input_length \<ge> 1\<close> it returns exactly \<open>3 * input_length\<close> characters, hence a
  non-empty string; for \<open>input_length = 0\<close> it returns the empty string; and for a negative
  \<open>input_length\<close> it returns the seed sentence without its last \<open>3 * |input_length|\<close>
  characters, which is empty when the seed sentence is no longer than that.
\<close>

theorem generate_prompt_cases:
  "(uses_fixed cfg \<longrightarrow> generate_prompt cfg rnd = get_or (cfg_fixed_prompt cfg) []
                        \<and> generate_prompt cfg rnd \<noteq> [])
   \<and> (\<not> uses_fixed cfg \<and> 1 \<le> get_or (cfg_input_length cfg) 512 \<longrightarrow>
        length (generate_prompt cfg rnd) = nat (3 * get_or (cfg_input_length cfg) 512)
        \<and> generate_prompt cfg rnd \<noteq> [])
   \<and> (\<not> uses_fixed cfg \<and> get_or (cfg_input_length cfg) 512 = 0 \<longrightarrow>
        generate_prompt cfg rnd = [])
   \<and> (\<not> uses_fixed cfg \<and> get_or (cfg_input_length cfg) 512 < 0 \<longrightarrow>
        generate_prompt cfg rnd
          = take (nat (int (length (seed_sentence rnd)) + 3 * get_or (cfg_input_length cfg) 512))
              (seed_sentence rnd))"
proof -
  define L where "L = get_or (cfg_input_length cfg) 512"
  define topic where "topic = random_choice rnd topics"
  have fixed: "generate_prompt cfg rnd = get_or (cfg_fixed_prompt cfg) []
      \<and> generate_prompt cfg rnd \<noteq> []" if "uses_fixed cfg"
    using that by (simp add: generate_prompt_def uses_fixed_def Let_def)
  have random: "generate_prompt cfg rnd
      = slice_to (elaborate topic L (base_phrase @ topic @ ''. '')) (3 * L)"
    if "\<not> uses_fixed cfg"
    using that
    by (auto simp add: generate_prompt_def uses_fixed_def Let_def L_def topic_def py_int_of_int)
  have pos: "length (generate_prompt cfg rnd) = nat (3 * L) \<and> generate_prompt cfg rnd \<noteq> []"
    if "\<not> uses_fixed cfg" "1 \<le> L"
  proof -
    have "3 * L \<le> int (length (elaborate topic L (base_phrase @ topic @ ''. '')))"
      by (rule elaborate_length)
    then have "nat (3 * L) \<le> length (elaborate topic L (base_phrase @ topic @ ''. ''))"
      by linarith
    then have "length (generate_prompt cfg rnd) = nat (3 * L)"
      using that by (simp add: random slice_to_def min_def)
    with that(2) show ?thesis by auto
  qed
  have zero: "generate_prompt cfg rnd = []" if "\<not> uses_fixed cfg" "L = 0"
    using that by (simp add: random slice_to_def)
  have neg: "generate_prompt cfg rnd
      = take (nat (int (length (seed_sentence rnd)) + 3 * L)) (seed_sentence rnd)"
    if "\<not> uses_fixed cfg" "L < 0"
    using that by (simp add: random slice_to_def elaborate_nonpos seed_sentence_def topic_def)
  from fixed pos zero neg show ?thesis
    unfolding L_def by blast
qed

theorem generate_prompt_cases_witness:
  "\<not> uses_fixed (random_cfg 2) \<and> (1 :: int) \<le> get_or (cfg_input_length (random_cfg 2)) 512
   \<and> length (generate_prompt (random_cfg 2) 7) = 6
   \<and> generate_prompt (random_cfg 2) 7 = ''Please''"
proof -
  have u: "\<not> uses_fixed (random_cfg 2)"
    by (simp add: uses_fixed_def random_cfg_def get_or_def)
  have v: "generate_prompt (random_cfg 2) 7 = ''Please''"
    by (simp add: generate_prompt_def random_cfg_def get_or_def Let_def slice_to_def py_int_def
      random_choice_def topics_def base_phrase_def elaborate.simps)
  show ?thesis
    using generate_prompt_cases [of "random_cfg 2" 7] u v
    by (simp add: random_cfg_def get_or_def)
qed


text \<open>
  The claim as stated (a non-empty string for every configuration, target lengths \<open>0\<close>
  and below included) fails: with the random mode and \<open>input_length = 0\<close> the slice
  \<open>prompt[:0]\<close> is empty, and with \<open>input_length = -30\<close> the slice \<open>prompt[:-90]\<close> of the
  88-character seed sentence is empty as well.
\<close>

theorem generate_prompt_empty_counterexample:
  "generate_prompt (random_cfg 0) 0 = [] \<and> generate_prompt (random_cfg (-30)) 0 = []"
  by (simp add: generate_prompt_def random_cfg_def get_or_def Let_def slice_to_def py_int_def
      random_choice_def topics_def base_phrase_def elaborate.simps)


section \<open>Properties of a single request and of a run\<close>

lemma request_body_keeps_error:
  "request_body jd now prompt net metrics = Inr m \<Longrightarrow> error m = error metrics"
  by (auto simp: request_body_def Let_def split: network.splits sum.splits if_splits)

lemma send_request_failure:
  "request_body jd now prompt net (new_metrics rid (now 0)) = Inl (e, k) \<Longrightarrow>
   send_request jd now rid prompt net
     = (new_metrics rid (now 0))\<lparr>error := Some (str_of_error e), end_time := now k\<rparr>"
  by (simp add: send_request_def Let_def)

lemma send_request_success:
  "request_body jd now prompt net (new_metrics rid (now 0)) = Inr m \<Longrightarrow>
   send_request jd now rid prompt net = m \<and> error m = None"
  by (frule request_body_keeps_error) (simp add: send_request_def Let_def new_metrics_def)

lemma send_request_error_set:
  assumes "error (send_request jd now rid prompt net) \<noteq> None"
  shows "\<exists>e k. request_body jd now prompt net (new_metrics rid (now 0)) = Inl (e, k)"
proof (cases "request_body jd now prompt net (new_metrics rid (now 0))")
  case (Inl a)
  then show ?thesis by (cases a) auto
next
  case (Inr m)
  then show ?thesis using assms send_request_success by fastforce
qed

lemma read_lines_skips:
  "(\<forall>l \<in> set ls. prefix ''data: '' l \<longrightarrow> jd (drop 6 l) = JSONDecodeError) \<Longrightarrow>
   read_lines jd now ls EndOfStream st = Inr st"
  by (induction ls) (simp_all add: Let_def)

lemma send_request_http_error:
  "status_code r \<noteq> 200 \<Longrightarrow> body r = Inr btxt \<Longrightarrow>
   error (send_request jd now rid prompt (Responded r))
     = Some (''HTTP '' @ str_of_int (status_code r) @ '': '' @ btxt)"
  by (simp add: send_request_def request_body_def Let_def)

lemma run_completed:
  assumes "run_concurrent_test jd cfg env ws we stamp = Completed res"
  shows "res = \<lparr>config_snapshot = cfg, timestamp = stamp, duration_seconds = we - ws,
           total_requests = get_or (cfg_num_requests cfg) 100,
           successful_requests =
             int (length (filter (\<lambda>m. \<not> error_truthy m) (all_metrics_of jd cfg env))),
           failed_requests = int (length (filter error_truthy (all_metrics_of jd cfg env))),
           throughput_rps =
             (if 0 < we - ws
              then real (length (filter (\<lambda>m. \<not> error_truthy m) (all_metrics_of jd cfg env)))
                     / (we - ws)
              else 0),
           request_metrics = filter (\<lambda>m. \<not> error_truthy m) (all_metrics_of jd cfg env)\<rparr>"
  using assms
  by (simp add: run_concurrent_test_def all_metrics_of_def Let_def split: if_splits)

lemma error_free_iff: "(\<not> error_truthy m \<and> error m \<noteq> Some []) \<longleftrightarrow> error m = None"
  by (cases "error m") (simp_all add: error_truthy_def)

lemma failed_request_counted:
  assumes run: "run_concurrent_test jd cfg env ws we stamp = Completed res"
    and idx: "idx < nat (get_or (cfg_num_requests cfg) 100)"
    and bad: "error_truthy (bounded_request jd cfg idx (env idx))"
  shows "1 \<le> failed_requests res
         \<and> bounded_request jd cfg idx (env idx) \<notin> set (request_metrics res)"
proof -
  let ?all = "all_metrics_of jd cfg env"
  let ?m = "bounded_request jd cfg idx (env idx)"
  note res = run_completed [OF run]
  have fail: "failed_requests res = int (length (filter error_truthy ?all))"
    by (subst res) simp
  have kept_all: "request_metrics res = filter (\<lambda>m. \<not> error_truthy m) ?all"
    by (subst res) simp
  have "?m \<in> set ?all"
    using idx by (simp add: all_metrics_of_def)
  with bad have "?m \<in> set (filter error_truthy ?all)" by simp
  then have "filter error_truthy ?all \<noteq> []" by (metis empty_iff empty_set)
  then have "1 \<le> length (filter error_truthy ?all)"
    by (cases "filter error_truthy ?all") simp_all
  then have "1 \<le> failed_requests res" by (simp add: fail)
  moreover have "?m \<notin> set (request_metrics res)"
    using bad by (simp add: kept_all)
  ultimately show ?thesis by blast
qed

lemma str_of_int_500: "str_of_int 500 = ''500''"
  by (simp add: str_of_int_def str_of_nat.simps digit_char_def)

lemma two_chunk_request:
  "send_request (\<lambda>s. Delta (PyStr s)) real ''req-0'' ''12345678'' (Responded two_chunk_response)
     = \<lparr>request_id = ''req-0'', start_time = 0, end_time = 3, ttft_ms = 1000,
        e2e_latency_ms = 2000, output_tokens = 2, input_tokens = 2, tokens_per_second = 1,
        error = None\<rparr>"
  by (simp add: send_request_def request_body_def new_metrics_def two_chunk_response_def Let_def
      py_int_def)

text \<open>
  C4 (as amended). \<open>send_request\<close> returns a record on every path. Every exception that
  reaches the handler of its \<open>try\<close> block is recorded as \<open>error = str(e)\<close>: a failure to
  open the connection, an exception while the lines are read or a chunk is handled, and
  a status other than 200. Whenever \<open>error\<close> is set, the latency, time-to-first-token,
  token counts and tokens-per-second are zero. A response whose status is not 200 and
  whose body can be read and decoded yields the error text
  \<open>"HTTP <status>: <body>"\<close>, which is a true value, so the request is counted in
  \<open>failed_requests\<close> and is left out of \<open>request_metrics\<close>. A body that is not JSON is not
  a failure: with status 200, lines without the \<open>data: \<close> marker are ignored and data
  lines that do not parse are skipped, and the request ends with \<open>error\<close> unset.
  (Exceptions outside the class \<open>Exception\<close>, such as a task cancellation, are not
  modelled.)
\<close>

theorem send_request_failures_captured:
  "(\<forall>e k. request_body jd now prompt net (new_metrics rid (now 0)) = Inl (e, k) \<longrightarrow>
       error (send_request jd now rid prompt net) = Some (str_of_error e))
   \<and> (error (send_request jd now rid prompt net) \<noteq> None \<longrightarrow>
        e2e_latency_ms (send_request jd now rid prompt net) = 0
        \<and> ttft_ms (send_request jd now rid prompt net) = 0
        \<and> output_tokens (send_request jd now rid prompt net) = 0
        \<and> input_tokens (send_request jd now rid prompt net) = 0
        \<and> tokens_per_second (send_request jd now rid prompt net) = 0)
   \<and> (\<forall>e. net = ConnectFailed e \<longrightarrow>
        error (send_request jd now rid prompt net) = Some (str_of_error e))
   \<and> (\<forall>r e k. net = Responded r \<and> status_code r = 200
          \<and> read_lines jd now (lines r) (ending r)
               \<lparr>first_token_time = None, output_text = [], ticks = 2\<rparr> = Inl (e, k) \<longrightarrow>
        error (send_request jd now rid prompt net) = Some (str_of_error e))
   \<and> (\<forall>r btxt. net = Responded r \<and> status_code r \<noteq> 200 \<and> body r = Inr btxt \<longrightarrow>
        error (send_request jd now rid prompt net)
          = Some (''HTTP '' @ str_of_int (status_code r) @ '': '' @ btxt)
        \<and> error_truthy (send_request jd now rid prompt net))
   \<and> (\<forall>r. net = Responded r \<and> status_code r = 200 \<and> ending r = EndOfStream
          \<and> (\<forall>l \<in> set (lines r). prefix ''data: '' l \<longrightarrow> jd (drop 6 l) = JSONDecodeError) \<longrightarrow>
        error (send_request jd now rid prompt net) = None
        \<and> output_tokens (send_request jd now rid prompt net) = 0)
   \<and> (\<forall>cfg env ws we stamp res idx r btxt.
          run_concurrent_test jd cfg env ws we stamp = Completed res
          \<and> idx < nat (get_or (cfg_num_requests cfg) 100)
          \<and> env_net (env idx) = Responded r \<and> status_code r \<noteq> 200 \<and> body r = Inr btxt \<longrightarrow>
        1 \<le> failed_requests res
        \<and> bounded_request jd cfg idx (env idx) \<notin> set (request_metrics res))"
proof -
  let ?m = "send_request jd now rid prompt net"
  have captured: "error ?m = Some (str_of_error e)"
    if "request_body jd now prompt net (new_metrics rid (now 0)) = Inl (e, k)" for e k
    using send_request_failure [OF that] by simp
  have zero: "e2e_latency_ms ?m = 0 \<and> ttft_ms ?m = 0 \<and> output_tokens ?m = 0
      \<and> input_tokens ?m = 0 \<and> tokens_per_second ?m = 0" if "error ?m \<noteq> None"
  proof -
    from send_request_error_set [OF that] obtain e k
      where "request_body jd now prompt net (new_metrics rid (now 0)) = Inl (e, k)" by blast
    from send_request_failure [OF this] show ?thesis by (simp add: new_metrics_def)
  qed
  have connect: "error ?m = Some (str_of_error e)" if "net = ConnectFailed e" for e
    by (rule captured [of e 2]) (simp add: request_body_def that)
  have stream: "error ?m = Some (str_of_error e)"
    if "net = Responded r" "status_code r = 200"
      "read_lines jd now (lines r) (ending r)
         \<lparr>first_token_time = None, output_text = [], ticks = 2\<rparr> = Inl (e, k)" for r e k
    by (rule captured [of e k]) (simp add: request_body_def that)
  have status: "error ?m = Some (''HTTP '' @ str_of_int (status_code r) @ '': '' @ btxt)
      \<and> error_truthy ?m"
    if "net = Responded r" "status_code r \<noteq> 200" "body r = Inr btxt" for r btxt
    using send_request_http_error [OF that(2,3), of jd now rid prompt]
    by (simp add: that(1) error_truthy_def)
  have skipped: "error ?m = None \<and> output_tokens ?m = 0"
    if "net = Responded r" "status_code r = 200" "ending r = EndOfStream"
      "\<forall>l \<in> set (lines r). prefix ''data: '' l \<longrightarrow> jd (drop 6 l) = JSONDecodeError" for r
    using that(1,2,3) read_lines_skips [OF that(4)]
    by (simp add: send_request_def request_body_def Let_def new_metrics_def py_int_def)
  have counted: "1 \<le> failed_requests res
        \<and> bounded_request jd cfg idx (env idx) \<notin> set (request_metrics res)"
    if "run_concurrent_test jd cfg env ws we stamp = Completed res"
      "idx < nat (get_or (cfg_num_requests cfg) 100)"
      "env_net (env idx) = Responded r" "status_code r \<noteq> 200" "body r = Inr btxt"
    for cfg env ws we stamp res idx r btxt
  proof (rule failed_request_counted [OF that(1,2)])
    show "error_truthy (bounded_request jd cfg idx (env idx))"
      using send_request_http_error [OF that(4,5)]
      by (simp add: bounded_request_def Let_def that(3) error_truthy_def)
  qed
  have c1: "\<forall>e k. request_body jd now prompt net (new_metrics rid (now 0)) = Inl (e, k) \<longrightarrow>
       error ?m = Some (str_of_error e)"
    using captured by blast
  have c2: "error ?m \<noteq> None \<longrightarrow>
        e2e_latency_ms ?m = 0 \<and> ttft_ms ?m = 0 \<and> output_tokens ?m = 0
        \<and> input_tokens ?m = 0 \<and> tokens_per_second ?m = 0"
    using zero by blast
  have c3: "\<forall>e. net = ConnectFailed e \<longrightarrow> error ?m = Some (str_of_error e)"
    using connect by blast
  have c4: "\<forall>r e k. net = Responded r \<and> status_code r = 200
          \<and> read_lines jd now (lines r) (ending r)
               \<lparr>first_token_time = None, output_text = [], ticks = 2\<rparr> = Inl (e, k) \<longrightarrow>
        error ?m = Some (str_of_error e)"
    by (intro allI impI, elim conjE) (rule stream; assumption)
  have c5: "\<forall>r btxt. net = Responded r \<and> status_code r \<noteq> 200 \<and> body r = Inr btxt \<longrightarrow>
        error ?m = Some (''HTTP '' @ str_of_int (status_code r) @ '': '' @ btxt)
        \<and> error_truthy ?m"
    by (intro allI impI, elim conjE) (rule status; assumption)
  have c6: "\<forall>r. net = Responded r \<and> status_code r = 200 \<and> ending r = EndOfStream
          \<and> (\<forall>l \<in> set (lines r). prefix ''data: '' l \<longrightarrow> jd (drop 6 l) = JSONDecodeError) \<longrightarrow>
        error ?m = None \<and> output_tokens ?m = 0"
    by (intro allI impI, elim conjE) (rule skipped; assumption)
  have c7: "\<forall>cfg env ws we stamp res idx r btxt.
          run_concurrent_test jd cfg env ws we stamp = Completed res
          \<and> idx < nat (get_or (cfg_num_requests cfg) 100)
          \<and> env_net (env idx) = Responded r \<and> status_code r \<noteq> 200 \<and> body r = Inr btxt \<longrightarrow>
        1 \<le> failed_requests res
        \<and> bounded_request jd cfg idx (env idx) \<notin> set (request_metrics res)"
    by (intro allI impI, elim conjE) (rule counted; assumption)
  show ?thesis
    by (intro conjI c1 c2 c3 c4 c5 c6 c7)
qed

theorem send_request_failures_captured_witness:
  "status_code failing_response \<noteq> 200
   \<and> body failing_response = Inr ''Internal Server Error''
   \<and> error (send_request (\<lambda>_. JSONDecodeError) real ''req-0'' ''hello'' (Responded failing_response))
       = Some ''HTTP 500: Internal Server Error''
   \<and> error_truthy (send_request (\<lambda>_. JSONDecodeError) real ''req-0'' ''hello''
                      (Responded failing_response))
   \<and> e2e_latency_ms (send_request (\<lambda>_. JSONDecodeError) real ''req-0'' ''hello''
                        (Responded failing_response)) = 0
   \<and> error (send_request (\<lambda>_. JSONDecodeError) real ''req-0'' ''hello''
               (ConnectFailed (OtherError ''All connection attempts failed'')))
       = Some ''All connection attempts failed''"
  using send_request_failures_captured
    [where net = "Responded failing_response" and jd = "\<lambda>_. JSONDecodeError" and now = real
       and rid = "''req-0''" and prompt = "''hello''"]
    send_request_failures_captured
    [where net = "ConnectFailed (OtherError ''All connection attempts failed'')"
       and jd = "\<lambda>_. JSONDecodeError" and now = real
       and rid = "''req-0''" and prompt = "''hello''"]
  by (simp add: failing_response_def str_of_int_500)

text \<open>
  The claim as stated lists a non-JSON body among the failures that end up in the
  \<open>error\<close> field. A response with status 200 whose lines are an HTML page and a
  truncated data line is a run of the loop in which nothing is appended, and the request
  is returned with \<open>error = None\<close>.
\<close>

theorem send_request_non_json_counterexample:
  "error (send_request (\<lambda>_. JSONDecodeError) real ''req-0'' ''hello''
            (Responded non_json_response)) = None"
  by (simp add: send_request_def request_body_def new_metrics_def non_json_response_def Let_def)

lemma read_lines_inv:
  "read_lines jd now ls fin st = Inr st' \<Longrightarrow> stream_inv now st \<Longrightarrow> stream_inv now st'"
proof (induction ls arbitrary: st)
  case Nil
  then show ?case by (simp split: stream_end.splits)
next
  case (Cons line rest)
  show ?case
  proof (cases "prefix ''data: '' line")
    case False
    with Cons.prems have "read_lines jd now rest fin st = Inr st'" by simp
    then show ?thesis using Cons.IH Cons.prems(2) by blast
  next
    case True
    note pre = this
    show ?thesis
    proof (cases "drop 6 line = ''[DONE]''")
      case True
      with pre Cons.prems show ?thesis by simp
    next
      case False
      note nd = this
      show ?thesis
      proof (cases "jd (drop 6 line)")
        case JSONDecodeError
        with pre nd Cons.prems have "read_lines jd now rest fin st = Inr st'" by simp
        then show ?thesis using Cons.IH Cons.prems(2) by blast
      next
        case (ChunkError e)
        with pre nd Cons.prems show ?thesis by simp
      next
        case (Delta content)
        define st1 where "st1 = (if truthy content \<and> first_token_time st = None
                            then st\<lparr>first_token_time := Some (now (ticks st)),
                                    ticks := ticks st + 1\<rparr>
                            else st)"
        define st2 where "st2 = st1\<lparr>output_text := output_text st1 @ [content]\<rparr>"
        have run: "read_lines jd now rest fin st2 = Inr st'"
          using pre nd Delta Cons.prems(1) by (simp add: st1_def st2_def Let_def)
        have "stream_inv now st1"
          using Cons.prems(2) unfolding st1_def stream_inv_def
          by (auto intro: exI [of _ "ticks st"])
        then have "stream_inv now st2"
          by (simp add: st2_def stream_inv_def)
        with run show ?thesis using Cons.IH by blast
      qed
    qed
  qed
qed

lemma stream_inv_init:
  "stream_inv now \<lparr>first_token_time = None, output_text = [], ticks = 2\<rparr>"
  by (simp add: stream_inv_def)

lemma request_body_success:
  assumes "request_body jd now prompt net metrics = Inr m"
  shows "\<exists>r st oc. net = Responded r \<and> status_code r = 200
          \<and> read_lines jd now (lines r) (ending r)
               \<lparr>first_token_time = None, output_text = [], ticks = 2\<rparr> = Inr st
          \<and> str_join (output_text st) 0 = Inr oc
          \<and> start_time m = start_time metrics
          \<and> end_time m = now (ticks st)
          \<and> e2e_latency_ms m = (now (ticks st) - now 1) * 1000
          \<and> ttft_ms m = (case first_token_time st of
                            Some t \<Rightarrow> if t \<noteq> 0 then (t - now 1) * 1000 else 0
                          | None \<Rightarrow> 0)
          \<and> output_tokens m = py_int (real (length oc) / 4)
          \<and> input_tokens m = py_int (real (length prompt) / 4)
          \<and> tokens_per_second m
              = (if 0 < e2e_latency_ms m
                 then (real_of_int (output_tokens m) / e2e_latency_ms m) * 1000
                 else tokens_per_second metrics)"
  using assms
  by (auto simp: request_body_def Let_def split: network.splits sum.splits if_splits option.splits)

text \<open>
  C6 (as amended). For every request returned with \<open>error\<close> unset, \<open>tokens_per_second\<close> is
  \<open>output_tokens / e2e_latency_ms * 1000\<close> when the latency is positive and \<open>0\<close> otherwise;
  and if the successive readings of the wall clock do not decrease, then
  \<open>ttft_ms \<le> e2e_latency_ms\<close> (with or without output), both are non-negative, and
  \<open>end_time \<ge> start_time\<close>.
\<close>

theorem send_request_success_timing:
  assumes "error (send_request jd now rid prompt net) = None"
  shows "tokens_per_second (send_request jd now rid prompt net)
           = (if 0 < e2e_latency_ms (send_request jd now rid prompt net)
              then real_of_int (output_tokens (send_request jd now rid prompt net))
                     / e2e_latency_ms (send_request jd now rid prompt net) * 1000
              else 0)
         \<and> (mono now \<longrightarrow>
              ttft_ms (send_request jd now rid prompt net)
                \<le> e2e_latency_ms (send_request jd now rid prompt net)
              \<and> 0 \<le> ttft_ms (send_request jd now rid prompt net)
              \<and> 0 \<le> e2e_latency_ms (send_request jd now rid prompt net)
              \<and> start_time (send_request jd now rid prompt net)
                  \<le> end_time (send_request jd now rid prompt net))"
proof -
  let ?m = "send_request jd now rid prompt net"
  obtain m where body: "request_body jd now prompt net (new_metrics rid (now 0)) = Inr m"
  proof (cases "request_body jd now prompt net (new_metrics rid (now 0))")
    case (Inl a)
    then have "error ?m \<noteq> None"
      by (cases a) (simp add: send_request_def Let_def)
    with assms show ?thesis by simp
  next
    case (Inr m)
    then show ?thesis using that by blast
  qed
  then have m: "?m = m" by (simp add: send_request_def Let_def)
  from request_body_success [OF body] obtain r st oc where
    all: "net = Responded r \<and> status_code r = 200
          \<and> read_lines jd now (lines r) (ending r)
               \<lparr>first_token_time = None, output_text = [], ticks = 2\<rparr> = Inr st
          \<and> str_join (output_text st) 0 = Inr oc
          \<and> start_time m = start_time (new_metrics rid (now 0))
          \<and> end_time m = now (ticks st)
          \<and> e2e_latency_ms m = (now (ticks st) - now 1) * 1000
          \<and> ttft_ms m = (case first_token_time st of
                            Some t \<Rightarrow> if t \<noteq> 0 then (t - now 1) * 1000 else 0
                          | None \<Rightarrow> 0)
          \<and> output_tokens m = py_int (real (length oc) / 4)
          \<and> input_tokens m = py_int (real (length prompt) / 4)
          \<and> tokens_per_second m
              = (if 0 < e2e_latency_ms m
                 then (real_of_int (output_tokens m) / e2e_latency_ms m) * 1000
                 else tokens_per_second (new_metrics rid (now 0)))"
    by blast
  from all have run: "read_lines jd now (lines r) (ending r)
            \<lparr>first_token_time = None, output_text = [], ticks = 2\<rparr> = Inr st" by blast
  from all have st: "start_time m = start_time (new_metrics rid (now 0))" by blast
  from all have en: "end_time m = now (ticks st)" by blast
  from all have e2e: "e2e_latency_ms m = (now (ticks st) - now 1) * 1000" by blast
  from all have ttft: "ttft_ms m = (case first_token_time st of
                            Some t \<Rightarrow> if t \<noteq> 0 then (t - now 1) * 1000 else 0
                          | None \<Rightarrow> 0)" by blast
  from all have tps: "tokens_per_second m
              = (if 0 < e2e_latency_ms m
                 then (real_of_int (output_tokens m) / e2e_latency_ms m) * 1000
                 else tokens_per_second (new_metrics rid (now 0)))" by blast
  have inv: "stream_inv now st"
    using read_lines_inv [OF run stream_inv_init] .
  then have ticks: "2 \<le> ticks st" by (simp add: stream_inv_def)
  have rate: "tokens_per_second m
      = (if 0 < e2e_latency_ms m then real_of_int (output_tokens m) / e2e_latency_ms m * 1000
         else 0)"
    by (simp add: tps new_metrics_def)
  have timing: "ttft_ms m \<le> e2e_latency_ms m \<and> 0 \<le> ttft_ms m \<and> 0 \<le> e2e_latency_ms m
      \<and> start_time m \<le> end_time m" if clock: "mono now"
  proof -
    have start_end: "now 1 \<le> now (ticks st)" "now 0 \<le> now (ticks st)"
      using ticks clock by (simp_all add: monoD)
    have e2e_nonneg: "0 \<le> e2e_latency_ms m"
      using start_end by (simp add: e2e)
    have ttft_bounds: "0 \<le> ttft_ms m \<and> ttft_ms m \<le> e2e_latency_ms m"
    proof (cases "first_token_time st")
      case None
      then show ?thesis using e2e_nonneg by (simp add: ttft)
    next
      case (Some t)
      with inv obtain k where k: "2 \<le> k" "k < ticks st" "t = now k"
        by (auto simp: stream_inv_def)
      then have "now 1 \<le> t" "t \<le> now (ticks st)"
        using clock by (simp_all add: monoD)
      then show ?thesis using Some e2e_nonneg by (simp add: ttft e2e)
    qed
    have "start_time m \<le> end_time m"
      using start_end by (simp add: st en new_metrics_def)
    with ttft_bounds e2e_nonneg show ?thesis by blast
  qed
  from rate timing show ?thesis
    unfolding m by blast
qed

theorem send_request_success_timing_witness:
  "mono (real :: nat \<Rightarrow> real)
   \<and> error (send_request (\<lambda>s. Delta (PyStr s)) real ''req-0'' ''12345678''
              (Responded two_chunk_response)) = None
   \<and> ttft_ms (send_request (\<lambda>s. Delta (PyStr s)) real ''req-0'' ''12345678''
                (Responded two_chunk_response))
       \<le> e2e_latency_ms (send_request (\<lambda>s. Delta (PyStr s)) real ''req-0'' ''12345678''
                           (Responded two_chunk_response))
   \<and> tokens_per_second (send_request (\<lambda>s. Delta (PyStr s)) real ''req-0'' ''12345678''
                           (Responded two_chunk_response)) = 1"
proof -
  have m: "mono (real :: nat \<Rightarrow> real)" by (simp add: mono_def)
  have e: "error (send_request (\<lambda>s. Delta (PyStr s)) real ''req-0'' ''12345678''
              (Responded two_chunk_response)) = None"
    by (simp add: two_chunk_request)
  show ?thesis
    using send_request_success_timing [OF e] m e by (simp add: two_chunk_request)
qed

text \<open>
  The claim as stated, without a condition on the clock, fails: \<open>time.time()\<close> is the
  adjustable wall clock. If it is set back from \<open>10\<close> to \<open>5\<close> after the request has started,
  the two-chunk stream is returned with \<open>error\<close> unset, an end-to-end latency of
  \<open>-5000\<close> ms and \<open>end_time < start_time\<close>; if it is set back after the first chunk, the
  request has output and \<open>ttft_ms = 10000\<close> exceeds \<open>e2e_latency_ms = 5000\<close>.
\<close>

theorem send_request_backward_clock_counterexample:
  "error (send_request (\<lambda>s. Delta (PyStr s)) backward_clock ''req-0'' ''12345678''
            (Responded two_chunk_response)) = None
   \<and> e2e_latency_ms (send_request (\<lambda>s. Delta (PyStr s)) backward_clock ''req-0'' ''12345678''
                        (Responded two_chunk_response)) = - 5000
   \<and> end_time (send_request (\<lambda>s. Delta (PyStr s)) backward_clock ''req-0'' ''12345678''
                  (Responded two_chunk_response))
       < start_time (send_request (\<lambda>s. Delta (PyStr s)) backward_clock ''req-0'' ''12345678''
                       (Responded two_chunk_response))
   \<and> error (send_request (\<lambda>s. Delta (PyStr s)) late_backward_clock ''req-0'' ''12345678''
               (Responded two_chunk_response)) = None
   \<and> output_tokens (send_request (\<lambda>s. Delta (PyStr s)) late_backward_clock ''req-0''
                       ''12345678'' (Responded two_chunk_response)) = 2
   \<and> ttft_ms (send_request (\<lambda>s. Delta (PyStr s)) late_backward_clock ''req-0'' ''12345678''
                 (Responded two_chunk_response)) = 10000
   \<and> e2e_latency_ms (send_request (\<lambda>s. Delta (PyStr s)) late_backward_clock ''req-0''
                        ''12345678'' (Responded two_chunk_response)) = 5000"
  by (simp add: send_request_def request_body_def new_metrics_def two_chunk_response_def Let_def
      py_int_def backward_clock_def late_backward_clock_def)

text \<open>
  C5 (as amended). For every completed run the list of all metrics has
  \<open>max(0, num_requests)\<close> entries, \<open>successful_requests + failed_requests\<close> is that number,
  and \<open>total_requests\<close> is the configured \<open>num_requests\<close>, so the three agree when
  \<open>num_requests \<ge> 0\<close>. \<open>request_metrics\<close> holds, in order, every record whose \<open>error\<close> is
  \<open>None\<close> and no record with a non-empty error text; \<open>successful_requests\<close> is its length.
  \<open>throughput_rps\<close> is \<open>successful_requests / duration\<close> when the duration is positive and
  \<open>0\<close> otherwise.
\<close>

theorem run_concurrent_test_result:
  assumes "run_concurrent_test jd cfg env ws we stamp = Completed res"
  shows "length (all_metrics_of jd cfg env) = nat (get_or (cfg_num_requests cfg) 100)
         \<and> successful_requests res + failed_requests res
             = int (length (all_metrics_of jd cfg env))
         \<and> total_requests res = get_or (cfg_num_requests cfg) 100
         \<and> (0 \<le> get_or (cfg_num_requests cfg) 100 \<longrightarrow>
              successful_requests res + failed_requests res = total_requests res)
         \<and> filter (\<lambda>m. error m \<noteq> Some []) (request_metrics res)
             = filter (\<lambda>m. error m = None) (all_metrics_of jd cfg env)
         \<and> successful_requests res = int (length (request_metrics res))
         \<and> duration_seconds res = we - ws
         \<and> throughput_rps res
             = (if 0 < duration_seconds res
                then real_of_int (successful_requests res) / duration_seconds res
                else 0)"
proof -
  let ?all = "all_metrics_of jd cfg env"
  note res = run_completed [OF assms]
  have succ: "successful_requests res = int (length (filter (\<lambda>m. \<not> error_truthy m) ?all))"
    by (subst res) simp
  have fail: "failed_requests res = int (length (filter error_truthy ?all))"
    by (subst res) simp
  have kept_all: "request_metrics res = filter (\<lambda>m. \<not> error_truthy m) ?all"
    by (subst res) simp
  have total: "total_requests res = get_or (cfg_num_requests cfg) 100"
    by (subst res) simp
  have dur: "duration_seconds res = we - ws"
    by (subst res) simp
  have rps: "throughput_rps res
      = (if 0 < we - ws
         then real (length (filter (\<lambda>m. \<not> error_truthy m) ?all)) / (we - ws) else 0)"
    by (subst res) simp
  have len: "length ?all = nat (get_or (cfg_num_requests cfg) 100)"
    by (simp add: all_metrics_of_def)
  have "length (filter error_truthy ?all) + length (filter (\<lambda>m. \<not> error_truthy m) ?all)
      = length ?all"
    by (rule sum_length_filter_compl)
  then have sum: "successful_requests res + failed_requests res = int (length ?all)"
    unfolding succ fail by linarith
  have matched: "0 \<le> get_or (cfg_num_requests cfg) 100 \<longrightarrow>
      successful_requests res + failed_requests res = total_requests res"
    using sum len total by simp
  have kept: "filter (\<lambda>m. error m \<noteq> Some []) (request_metrics res)
      = filter (\<lambda>m. error m = None) ?all"
    by (simp add: kept_all error_free_iff)
  have count: "successful_requests res = int (length (request_metrics res))"
    by (simp add: succ kept_all)
  have thr: "throughput_rps res
      = (if 0 < duration_seconds res
         then real_of_int (successful_requests res) / duration_seconds res else 0)"
    by (simp add: rps dur succ)
  from len sum total matched kept count dur thr show ?thesis by blast
qed

lemma str_of_nat_digits: "str_of_nat 0 = ''0''" "str_of_nat (Suc 0) = ''1''"
  by (simp_all add: str_of_nat.simps digit_char_def)

lemma run_concurrent_test_eq:
  "run_concurrent_test jd cfg env ws we stamp =
     (if get_or (cfg_concurrency cfg) 10 < 0
      then Raised (ValueError ''Semaphore initial value must be >= 0'')
      else if get_or (cfg_concurrency cfg) 10 = 0 \<and> 0 < get_or (cfg_num_requests cfg) 100
      then Deadlock
      else Completed
         \<lparr>config_snapshot = cfg, timestamp = stamp, duration_seconds = we - ws,
           total_requests = get_or (cfg_num_requests cfg) 100,
           successful_requests =
             int (length (filter (\<lambda>m. \<not> error_truthy m) (all_metrics_of jd cfg env))),
           failed_requests = int (length (filter error_truthy (all_metrics_of jd cfg env))),
           throughput_rps =
             (if 0 < we - ws
              then real (length (filter (\<lambda>m. \<not> error_truthy m) (all_metrics_of jd cfg env)))
                     / (we - ws)
              else 0),
           request_metrics = filter (\<lambda>m. \<not> error_truthy m) (all_metrics_of jd cfg env)\<rparr>)"
  by (simp add: run_concurrent_test_def all_metrics_of_def Let_def)

lemma two_request_cfg_values:
  "get_or (cfg_concurrency two_request_cfg) 10 = 1"
  "get_or (cfg_num_requests two_request_cfg) 100 = 2"
  by (simp_all add: two_request_cfg_def get_or_def)

lemma two_request_all:
  "all_metrics_of (\<lambda>s. Delta (PyStr s)) two_request_cfg two_request_env
     = [\<lparr>request_id = ''req-0'', start_time = 0, end_time = 3, ttft_ms = 1000,
          e2e_latency_ms = 2000, output_tokens = 2, input_tokens = 2, tokens_per_second = 1,
          error = None\<rparr>,
        \<lparr>request_id = ''req-1'', start_time = 0, end_time = 2, ttft_ms = 0,
          e2e_latency_ms = 0, output_tokens = 0, input_tokens = 0, tokens_per_second = 0,
          error = Some ''HTTP 500: Internal Server Error''\<rparr>]"
proof -
  have p: "generate_prompt two_request_cfg 0 = ''12345678''"
    by (simp add: generate_prompt_def two_request_cfg_def get_or_def Let_def)
  have r0: "bounded_request (\<lambda>s. Delta (PyStr s)) two_request_cfg 0 (two_request_env 0)
     = \<lparr>request_id = ''req-0'', start_time = 0, end_time = 3, ttft_ms = 1000,
          e2e_latency_ms = 2000, output_tokens = 2, input_tokens = 2, tokens_per_second = 1,
          error = None\<rparr>"
    using two_chunk_request
    by (simp add: bounded_request_def two_request_env_def p str_of_nat_digits)
  have r1: "bounded_request (\<lambda>s. Delta (PyStr s)) two_request_cfg (Suc 0) (two_request_env (Suc 0))
     = \<lparr>request_id = ''req-1'', start_time = 0, end_time = 2, ttft_ms = 0,
          e2e_latency_ms = 0, output_tokens = 0, input_tokens = 0, tokens_per_second = 0,
          error = Some ''HTTP 500: Internal Server Error''\<rparr>"
    by (simp add: bounded_request_def two_request_env_def p str_of_nat_digits
        send_request_def request_body_def new_metrics_def failing_response_def str_of_int_500)
  have "[0..<nat (get_or (cfg_num_requests two_request_cfg) 100)] = [0, 1]"
    by (simp add: two_request_cfg_def get_or_def upt_rec)
  then show ?thesis
    by (simp add: all_metrics_of_def r0 r1)
qed

lemma two_request_run:
  "run_concurrent_test (\<lambda>s. Delta (PyStr s)) two_request_cfg two_request_env 10 14 ''t''
     = Completed
         \<lparr>config_snapshot = two_request_cfg, timestamp = ''t'', duration_seconds = 4,
          total_requests = 2, successful_requests = 1, failed_requests = 1,
          throughput_rps = 1 / 4,
          request_metrics =
            [\<lparr>request_id = ''req-0'', start_time = 0, end_time = 3, ttft_ms = 1000,
              e2e_latency_ms = 2000, output_tokens = 2, input_tokens = 2,
              tokens_per_second = 1, error = None\<rparr>]\<rparr>"
  by (simp add: run_concurrent_test_eq two_request_cfg_values two_request_all error_truthy_def)

theorem run_concurrent_test_result_witness:
  "run_concurrent_test (\<lambda>s. Delta (PyStr s)) two_request_cfg two_request_env 10 14 ''t''
     = Completed
         \<lparr>config_snapshot = two_request_cfg, timestamp = ''t'', duration_seconds = 4,
          total_requests = 2, successful_requests = 1, failed_requests = 1,
          throughput_rps = 1 / 4,
          request_metrics =
            [\<lparr>request_id = ''req-0'', start_time = 0, end_time = 3, ttft_ms = 1000,
              e2e_latency_ms = 2000, output_tokens = 2, input_tokens = 2,
              tokens_per_second = 1, error = None\<rparr>]\<rparr>
   \<and> (0 :: int) \<le> get_or (cfg_num_requests two_request_cfg) 100
   \<and> length (all_metrics_of (\<lambda>s. Delta (PyStr s)) two_request_cfg two_request_env) = 2"
  using run_concurrent_test_result [OF two_request_run]
  by (simp add: two_request_run two_request_cfg_values two_request_all)

text \<open>
  The claim as stated (\<open>successful + failed = total_requests = N\<close> for every completed
  run) fails for a negative \<open>num_requests\<close>: \<open>range(-1)\<close> is empty, so no request is
  dispatched and both counts are \<open>0\<close>, while \<open>total_requests\<close> is the configured \<open>-1\<close>.
\<close>

theorem run_concurrent_test_negative_counterexample:
  "run_concurrent_test (\<lambda>s. Delta (PyStr s)) negative_cfg two_request_env 10 14 ''t''
     = Completed
         \<lparr>config_snapshot = negative_cfg, timestamp = ''t'', duration_seconds = 4,
          total_requests = - 1, successful_requests = 0, failed_requests = 0,
          throughput_rps = 0, request_metrics = []\<rparr>"
  by (simp add: run_concurrent_test_def negative_cfg_def two_request_cfg_def get_or_def Let_def)

section \<open>Properties of the load tester\<close>

lemma percentile_value:
  "0 \<le> p \<Longrightarrow> p \<le> 100 \<Longrightarrow> percentile data p = Inr (percentile_or_zero data p)"
  by (simp add: percentile_def percentile_or_zero_def np_percentile_linear)

lemma calculate_statistics_value:
  "calculate_statistics metrics rps =
     Inr \<lparr>avg_latency_ms = calculate_mean (positive e2e_latency_ms metrics),
          p50_latency_ms = percentile_or_zero (positive e2e_latency_ms metrics) 50,
          p95_latency_ms = percentile_or_zero (positive e2e_latency_ms metrics) 95,
          p99_latency_ms = percentile_or_zero (positive e2e_latency_ms metrics) 99,
          avg_ttft_ms = calculate_mean (positive ttft_ms metrics),
          p50_ttft_ms = percentile_or_zero (positive ttft_ms metrics) 50,
          p95_ttft_ms = percentile_or_zero (positive ttft_ms metrics) 95,
          p99_ttft_ms = percentile_or_zero (positive ttft_ms metrics) 99,
          avg_tokens_per_second = calculate_mean (positive tokens_per_second metrics),
          stat_throughput_rps = rps\<rparr>"
proof (cases "metrics = []")
  case True
  then show ?thesis
    by (simp add: calculate_statistics_def positive_def calculate_mean_def percentile_or_zero_def)
next
  case False
  then show ?thesis
    unfolding calculate_statistics_def Let_def positive_def [symmetric]
    by (simp add: percentile_value bind_err_def calculate_mean_def)
qed

lemma positive_drop:
  "field m \<le> 0 \<Longrightarrow> positive field (xs @ m # ys) = positive field (xs @ ys)"
  by (simp add: positive_def)

text \<open>
  C10. \<open>calculate_statistics\<close> never fails, and it aggregates only the positive samples:
  the latency mean and percentiles are those of the records with \<open>e2e_latency_ms > 0\<close>, the
  time-to-first-token mean and percentiles those of the records with \<open>ttft_ms > 0\<close>, and
  the tokens-per-second mean that of the records with \<open>tokens_per_second > 0\<close> (\<open>0\<close> when
  no sample is left). Hence a record with \<open>ttft_ms = 0\<close>, wherever it stands in the list,
  changes none of the reported time-to-first-token figures.
\<close>

theorem calculate_statistics_filters:
  "(\<exists>st. calculate_statistics metrics rps = Inr st
      \<and> avg_latency_ms st = calculate_mean (positive e2e_latency_ms metrics)
      \<and> p50_latency_ms st = percentile_or_zero (positive e2e_latency_ms metrics) 50
      \<and> p95_latency_ms st = percentile_or_zero (positive e2e_latency_ms metrics) 95
      \<and> p99_latency_ms st = percentile_or_zero (positive e2e_latency_ms metrics) 99
      \<and> avg_ttft_ms st = calculate_mean (positive ttft_ms metrics)
      \<and> p50_ttft_ms st = percentile_or_zero (positive ttft_ms metrics) 50
      \<and> p95_ttft_ms st = percentile_or_zero (positive ttft_ms metrics) 95
      \<and> p99_ttft_ms st = percentile_or_zero (positive ttft_ms metrics) 99
      \<and> avg_tokens_per_second st = calculate_mean (positive tokens_per_second metrics))
   \<and> (\<forall>x \<in> set (positive e2e_latency_ms metrics) \<union> set (positive ttft_ms metrics)
             \<union> set (positive tokens_per_second metrics). 0 < x)
   \<and> (ttft_ms m \<le> 0 \<longrightarrow>
        (\<exists>st st'. calculate_statistics (xs @ m # ys) rps = Inr st
           \<and> calculate_statistics (xs @ ys) rps = Inr st'
           \<and> avg_ttft_ms st = avg_ttft_ms st' \<and> p50_ttft_ms st = p50_ttft_ms st'
           \<and> p95_ttft_ms st = p95_ttft_ms st' \<and> p99_ttft_ms st = p99_ttft_ms st'))"
proof -
  have summary: "\<exists>st. calculate_statistics metrics rps = Inr st
      \<and> avg_latency_ms st = calculate_mean (positive e2e_latency_ms metrics)
      \<and> p50_latency_ms st = percentile_or_zero (positive e2e_latency_ms metrics) 50
      \<and> p95_latency_ms st = percentile_or_zero (positive e2e_latency_ms metrics) 95
      \<and> p99_latency_ms st = percentile_or_zero (positive e2e_latency_ms metrics) 99
      \<and> avg_ttft_ms st = calculate_mean (positive ttft_ms metrics)
      \<and> p50_ttft_ms st = percentile_or_zero (positive ttft_ms metrics) 50
      \<and> p95_ttft_ms st = percentile_or_zero (positive ttft_ms metrics) 95
      \<and> p99_ttft_ms st = percentile_or_zero (positive ttft_ms metrics) 99
      \<and> avg_tokens_per_second st = calculate_mean (positive tokens_per_second metrics)"
    by (simp add: calculate_statistics_value)
  have pos: "\<forall>x \<in> set (positive e2e_latency_ms metrics) \<union> set (positive ttft_ms metrics)
             \<union> set (positive tokens_per_second metrics). 0 < x"
    by (auto simp: positive_def)
  have dropped: "ttft_ms m \<le> 0 \<longrightarrow>
        (\<exists>st st'. calculate_statistics (xs @ m # ys) rps = Inr st
           \<and> calculate_statistics (xs @ ys) rps = Inr st'
           \<and> avg_ttft_ms st = avg_ttft_ms st' \<and> p50_ttft_ms st = p50_ttft_ms st'
           \<and> p95_ttft_ms st = p95_ttft_ms st' \<and> p99_ttft_ms st = p99_ttft_ms st')"
    by (simp add: calculate_statistics_value positive_drop)
  show ?thesis by (intro conjI summary pos dropped)
qed

theorem calculate_statistics_filters_witness:
  "ttft_ms stalled_metrics \<le> 0
   \<and> (\<exists>st. calculate_statistics [streamed_metrics, stalled_metrics] 1 = Inr st
        \<and> p50_ttft_ms st = 1000 \<and> p95_ttft_ms st = 1000 \<and> avg_ttft_ms st = 1000
        \<and> p50_latency_ms st = 1250)
   \<and> (\<exists>st'. calculate_statistics [streamed_metrics] 1 = Inr st'
        \<and> p50_ttft_ms st' = 1000 \<and> p95_ttft_ms st' = 1000 \<and> avg_ttft_ms st' = 1000)"
proof -
  have t: "positive ttft_ms [streamed_metrics, stalled_metrics] = [1000]"
    "positive ttft_ms [streamed_metrics] = [1000]"
    "positive e2e_latency_ms [streamed_metrics, stalled_metrics] = [2000, 500]"
    by (simp_all add: positive_def streamed_metrics_def stalled_metrics_def)
  have v: "percentile_or_zero [1000] 50 = 1000" "percentile_or_zero [1000] 95 = 1000"
    "calculate_mean [1000] = 1000" "percentile_or_zero [2000, 500] 50 = 1250"
    by (simp_all add: percentile_or_zero_def spec_linear_percentile_def Let_def
        calculate_mean_def np_mean_def)
  have s: "ttft_ms stalled_metrics \<le> 0" by (simp add: stalled_metrics_def)
  show ?thesis
    using calculate_statistics_filters
      [of "[streamed_metrics, stalled_metrics]" 1 stalled_metrics "[streamed_metrics]" "[]"]
      calculate_statistics_filters [of "[streamed_metrics]" 1 stalled_metrics "[]" "[]"] s
    by (auto simp: t v)
qed

section \<open>Properties of the metrics collector\<close>

lemma collect_loop_frame:
  "collect_loop backend pf d s e qs acc = Inr m \<Longrightarrow> n \<notin> fst ` set qs \<Longrightarrow> m n = acc n"
proof (induction qs arbitrary: acc)
  case Nil
  then show ?case by simp
next
  case (Cons q qs)
  obtain k t where q: "q = (k, t)" by (cases q)
  from Cons.prems(1) obtain v where
    v: "metric_of_result pf (query_prometheus backend (format_template d t) s e) = Inr v"
    and rest: "collect_loop backend pf d s e qs (acc(k \<mapsto> v)) = Inr m"
    by (auto simp: q Let_def split: sum.splits)
  from Cons.prems(2) have "n \<noteq> k" "n \<notin> fst ` set qs" by (auto simp: q)
  with Cons.IH [OF rest] show ?case by simp
qed

lemma collect_loop_lookup:
  "collect_loop backend pf d s e qs acc = Inr m \<Longrightarrow> distinct (map fst qs) \<Longrightarrow>
   (n, t) \<in> set qs \<Longrightarrow>
   \<exists>v. metric_of_result pf (query_prometheus backend (format_template d t) s e) = Inr v
       \<and> m n = Some v"
proof (induction qs arbitrary: acc)
  case Nil
  then show ?case by simp
next
  case (Cons q qs)
  obtain k u where q: "q = (k, u)" by (cases q)
  from Cons.prems(1) obtain v where
    v: "metric_of_result pf (query_prometheus backend (format_template d u) s e) = Inr v"
    and rest: "collect_loop backend pf d s e qs (acc(k \<mapsto> v)) = Inr m"
    by (auto simp: q Let_def split: sum.splits)
  from Cons.prems(2) have d: "distinct (map fst qs)" and k: "k \<notin> fst ` set qs"
    by (auto simp: q)
  show ?case
  proof (cases "(n, t) \<in> set qs")
    case True
    from Cons.IH [OF rest d True] show ?thesis .
  next
    case False
    with Cons.prems(3) have nt: "n = k" "t = u" by (auto simp: q)
    from collect_loop_frame [OF rest k] have "m k = Some v" by simp
    with v nt show ?thesis by simp
  qed
qed

lemma collect_loop_unreachable:
  "(\<forall>q a b. \<exists>err. backend q a b = RequestFailed err) \<Longrightarrow>
   collect_loop backend pf d s e qs acc
     = Inr (\<lambda>n. if n \<in> fst ` set qs then Some None else acc n)"
proof (induction qs arbitrary: acc)
  case Nil
  then show ?case by simp
next
  case (Cons q qs)
  obtain k u where q: "q = (k, u)" by (cases q)
  from Cons.prems obtain err where "backend (format_template d u) s e = RequestFailed err"
    by blast
  then have "metric_of_result pf (query_prometheus backend (format_template d u) s e) = Inr None"
    by (simp add: query_prometheus_def metric_of_result_def)
  then show ?case
    using Cons.IH [OF Cons.prems] by (auto simp: q Let_def fun_eq_iff)
qed

lemma metric_of_result_None_iff:
  "metric_of_result pf result = Inr None \<longleftrightarrow> no_series result"
  by (auto simp: metric_of_result_def no_series_def Let_def bind_err_def
      split: option.splits list.splits sum.splits if_splits)

lemma metric_of_result_no_samples:
  "no_samples result \<Longrightarrow> metric_of_result pf result = Inr (Some 0)"
  by (auto simp: metric_of_result_def no_samples_def Let_def split: option.splits list.splits)

lemma distinct_VLLM_QUERIES: "distinct (map fst VLLM_QUERIES)"
  by (simp add: VLLM_QUERIES_def)

text \<open>
  C2 (as amended). When a collection returns, every metric of the query table is stored
  with the value computed from its own range query over \<open>[start - 5, end + 5]\<close>. The stored
  value is \<open>None\<close> exactly when the query failed or returned no series (no data, no
  \<open>result\<close> list, or an empty one). When the first series has no samples the stored value
  is \<open>0.0\<close>, not \<open>None\<close>. Against a backend on which every request fails the collection
  still returns, with every metric \<open>None\<close>.
\<close>

theorem collect_vllm_metrics_unavailable:
  "(collect_vllm_metrics backend pf ts te stamp cd = Inr pm \<and> (name, tmpl) \<in> set VLLM_QUERIES \<longrightarrow>
      (\<exists>v. metric_of_result pf
              (query_prometheus backend (format_template (py_int (te - ts)) tmpl) (ts - 5) (te + 5))
            = Inr v \<and> pm_metrics pm name = Some v)
      \<and> (pm_metrics pm name = Some None \<longleftrightarrow>
           no_series (query_prometheus backend (format_template (py_int (te - ts)) tmpl)
                        (ts - 5) (te + 5)))
      \<and> (no_samples (query_prometheus backend (format_template (py_int (te - ts)) tmpl)
                        (ts - 5) (te + 5)) \<longrightarrow>
           pm_metrics pm name = Some (Some 0)))
   \<and> ((\<forall>q a b. \<exists>err. backend q a b = RequestFailed err) \<longrightarrow>
        (\<exists>pm'. collect_vllm_metrics backend pf ts te stamp cd = Inr pm'
           \<and> (\<forall>n \<in> fst ` set VLLM_QUERIES. pm_metrics pm' n = Some None)))"
proof -
  let ?result = "query_prometheus backend (format_template (py_int (te - ts)) tmpl)
                   (ts - 5) (te + 5)"
  have collected: "(\<exists>v. metric_of_result pf ?result = Inr v \<and> pm_metrics pm name = Some v)
      \<and> (pm_metrics pm name = Some None \<longleftrightarrow> no_series ?result)
      \<and> (no_samples ?result \<longrightarrow> pm_metrics pm name = Some (Some 0))"
    if run: "collect_vllm_metrics backend pf ts te stamp cd = Inr pm"
      and q: "(name, tmpl) \<in> set VLLM_QUERIES"
  proof -
    from run have loop: "collect_loop backend pf (py_int (te - ts)) (ts - 5) (te + 5)
        VLLM_QUERIES Map.empty = Inr (pm_metrics pm)"
      by (auto simp: collect_vllm_metrics_def Let_def split: sum.splits)
    from collect_loop_lookup [OF loop distinct_VLLM_QUERIES q] obtain v where
      v: "metric_of_result pf ?result = Inr v" "pm_metrics pm name = Some v" by blast
    have none: "pm_metrics pm name = Some None \<longleftrightarrow> no_series ?result"
      using v metric_of_result_None_iff [of pf ?result] by auto
    have zero: "no_samples ?result \<longrightarrow> pm_metrics pm name = Some (Some 0)"
      using v metric_of_result_no_samples [of ?result pf] by auto
    from v none zero show ?thesis by blast
  qed
  have unreachable: "\<exists>pm'. collect_vllm_metrics backend pf ts te stamp cd = Inr pm'
           \<and> (\<forall>n \<in> fst ` set VLLM_QUERIES. pm_metrics pm' n = Some None)"
    if "\<forall>q a b. \<exists>err. backend q a b = RequestFailed err"
    by (simp add: collect_vllm_metrics_def Let_def collect_loop_unreachable [OF that])
  show ?thesis
    using collected unreachable by blast
qed

lemma empty_series_run:
  "collect_vllm_metrics empty_series_backend (\<lambda>s. Inr 0) 0 60 ''t'' 0
     = Inr \<lparr>pm_timestamp = ''t'', query_duration_seconds = 0,
            pm_metrics = [''request_throughput'' \<mapsto> Some 0, ''avg_ttft'' \<mapsto> Some 0,
              ''p95_ttft'' \<mapsto> Some 0, ''avg_latency'' \<mapsto> Some 0, ''p95_latency'' \<mapsto> Some 0,
              ''gpu_cache_usage'' \<mapsto> Some 0, ''queue_size'' \<mapsto> Some 0,
              ''token_throughput'' \<mapsto> Some 0]\<rparr>"
  by (simp add: collect_vllm_metrics_def VLLM_QUERIES_def Let_def
      query_prometheus_def empty_series_backend_def metric_of_result_def get_or_def)

theorem collect_vllm_metrics_unavailable_witness:
  "(''queue_size'', [Lit ''avg(vllm:waiting_queue_size)'']) \<in> set VLLM_QUERIES
   \<and> no_samples (query_prometheus empty_series_backend
         (format_template (py_int (60 - 0)) [Lit ''avg(vllm:waiting_queue_size)'']) (0 - 5) (60 + 5))
   \<and> collected_metric (collect_vllm_metrics empty_series_backend (\<lambda>s. Inr 0) 0 60 ''t'' 0)
        ''queue_size'' = Some (Some 0)
   \<and> collected_metric (collect_vllm_metrics unreachable_backend (\<lambda>s. Inr 0) 0 60 ''t'' 0)
        ''queue_size'' = Some None"
proof -
  have q: "(''queue_size'', [Lit ''avg(vllm:waiting_queue_size)'']) \<in> set VLLM_QUERIES"
    by (simp add: VLLM_QUERIES_def)
  have s: "no_samples (query_prometheus empty_series_backend
         (format_template (py_int (60 - 0)) [Lit ''avg(vllm:waiting_queue_size)'']) (0 - 5) (60 + 5))"
    by (simp add: no_samples_def query_prometheus_def empty_series_backend_def get_or_def)
  have u: "\<forall>q a b. \<exists>err. unreachable_backend q a b = RequestFailed err"
    by (simp add: unreachable_backend_def)
  have n: "''queue_size'' \<in> fst ` set VLLM_QUERIES"
    using q by force
  have a: "collected_metric (collect_vllm_metrics empty_series_backend (\<lambda>s. Inr 0) 0 60 ''t'' 0)
        ''queue_size'' = Some (Some 0)"
    using collect_vllm_metrics_unavailable
      [where backend = empty_series_backend and pf = "\<lambda>s. Inr 0" and ts = 0 and te = 60
         and stamp = "''t''" and cd = 0 and name = "''queue_size''"
         and tmpl = "[Lit ''avg(vllm:waiting_queue_size)'']"]
      empty_series_run q s
    by (simp add: collected_metric_def)
  from collect_vllm_metrics_unavailable
      [where backend = unreachable_backend and pf = "\<lambda>s. Inr 0" and ts = 0 and te = 60
         and stamp = "''t''" and cd = 0] u
  obtain pm' where "collect_vllm_metrics unreachable_backend (\<lambda>s. Inr 0) 0 60 ''t'' 0 = Inr pm'"
    and "\<forall>n \<in> fst ` set VLLM_QUERIES. pm_metrics pm' n = Some None"
    by blast
  with n have "pm_metrics pm' ''queue_size'' = Some None" by blast
  with \<open>collect_vllm_metrics unreachable_backend (\<lambda>s. Inr 0) 0 60 ''t'' 0 = Inr pm'\<close> have b: "collected_metric (collect_vllm_metrics unreachable_backend (\<lambda>s. Inr 0) 0 60 ''t'' 0)
        ''queue_size'' = Some None"
    by (simp add: collected_metric_def)
  from q s a b show ?thesis by blast
qed

text \<open>
  The claim as stated (\<open>None\<close> also when the query returns no samples within the window)
  fails: for a backend that answers with one series whose \<open>values\<close> list is empty, the
  branch \<open>metrics[metric_name] = 0.0\<close> is taken.
\<close>

theorem collect_vllm_metrics_zero_counterexample:
  "collected_metric (collect_vllm_metrics empty_series_backend (\<lambda>s. Inr 0) 0 60 ''t'' 0)
     ''request_throughput'' = Some (Some 0)
   \<and> no_samples (query_prometheus empty_series_backend
        ''rate(vllm:num_requests_total[60s])'' (- 5) 65)"
  by (simp add: collected_metric_def collect_vllm_metrics_def VLLM_QUERIES_def Let_def
      query_prometheus_def empty_series_backend_def metric_of_result_def get_or_def
      no_samples_def)

section \<open>Properties of the concurrency gate\<close>

lemma count_update:
  assumes "i < length xs"
  shows "length (filter P (xs[i := v])) + (if P (xs ! i) then 1 else 0)
       = length (filter P xs) + (if P v then 1 else 0)"
proof -
  have dec: "take i xs @ xs ! i # drop (Suc i) xs = xs"
    by (rule id_take_nth_drop [OF assms, symmetric])
  have "length (filter P (take i xs @ xs ! i # drop (Suc i) xs))
      = length (filter P (take i xs)) + (if P (xs ! i) then 1 else 0)
        + length (filter P (drop (Suc i) xs))"
    by simp
  then have a: "length (filter P xs)
      = length (filter P (take i xs)) + (if P (xs ! i) then 1 else 0)
        + length (filter P (drop (Suc i) xs))"
    unfolding dec .
  have "xs[i := v] = take i xs @ v # drop (Suc i) xs"
    using assms by (rule upd_conv_take_nth_drop)
  then have b: "length (filter P (xs[i := v]))
      = length (filter P (take i xs)) + (if P v then 1 else 0)
        + length (filter P (drop (Suc i) xs))"
    by simp
  from a b show ?thesis by simp
qed

lemma step_balance:
  "step e g = Some g' \<Longrightarrow> in_flight g' + permits g' = in_flight g + permits g"
proof (cases e)
  case (Acquire i)
  assume s: "step e g = Some g'"
  with Acquire have i: "i < length (tasks g)" "tasks g ! i = Waiting" "0 < permits g"
    and g': "g' = g\<lparr>permits := permits g - 1, tasks := (tasks g)[i := InFlight]\<rparr>"
    by (auto split: if_splits)
  from count_update [OF i(1), of "\<lambda>s. s = InFlight" InFlight] i(2)
  have "in_flight g' = in_flight g + 1" by (simp add: in_flight_def g')
  with i(3) show ?thesis by (simp add: g')
next
  case (Release i)
  assume s: "step e g = Some g'"
  with Release have i: "i < length (tasks g)" "tasks g ! i = InFlight"
    and g': "g' = g\<lparr>permits := permits g + 1, tasks := (tasks g)[i := Finished]\<rparr>"
    by (auto split: if_splits)
  from count_update [OF i(1), of "\<lambda>s. s = InFlight" Finished] i(2)
  have "in_flight g' + 1 = in_flight g" by (simp add: in_flight_def g')
  then show ?thesis by (simp add: g')
qed

lemma run_events_balance:
  "run_events es g = Some g' \<Longrightarrow> in_flight g' + permits g' = in_flight g + permits g"
proof (induction es arbitrary: g)
  case Nil
  then show ?case by simp
next
  case (Cons e es)
  then obtain g1 where s: "step e g = Some g1" and r: "run_events es g1 = Some g'"
    by (auto split: option.splits)
  from Cons.IH [OF r] step_balance [OF s] show ?case by simp
qed

lemma step_length: "step e g = Some g' \<Longrightarrow> length (tasks g') = length (tasks g)"
  by (cases e) (auto split: if_splits)

lemma run_events_length:
  "run_events es g = Some g' \<Longrightarrow> length (tasks g') = length (tasks g)"
proof (induction es arbitrary: g)
  case Nil
  then show ?case by simp
next
  case (Cons e es)
  then obtain g1 where s: "step e g = Some g1" and r: "run_events es g1 = Some g'"
    by (auto split: option.splits)
  from Cons.IH [OF r] step_length [OF s] show ?case by simp
qed

lemma in_flight_start: "in_flight \<lparr>permits = c, tasks = replicate n Waiting\<rparr> = 0"
  by (simp add: in_flight_def)

lemma waiting_index: "Waiting \<in> set xs \<Longrightarrow> \<exists>j < length xs. xs ! j = Waiting"
  by (simp add: in_set_conv_nth)

text \<open>
  C1. In every state that the measured phase can reach, for concurrency \<open>C\<close> and \<open>N\<close>
  requests and whatever the order of events: the number of calls of \<open>send_request\<close> in
  flight is at most \<open>C\<close> (it is \<open>C\<close> minus the free permits); while \<open>C\<close> calls are in flight
  no further task is admitted; and as soon as a call completes while a task is still
  waiting, a waiting task can be admitted, which brings the number in flight back to at
  most \<open>C\<close>.
\<close>

theorem semaphore_bounds_in_flight:
  "start_measured_phase C N = Inr g0 \<and> run_events es g0 = Some g \<longrightarrow>
     int (in_flight g) \<le> C
     \<and> in_flight g + permits g = nat C
     \<and> length (tasks g) = nat N
     \<and> (in_flight g = nat C \<longrightarrow> (\<forall>j. step (Acquire j) g = None))
     \<and> (\<forall>i g'. step (Release i) g = Some g' \<and> Waiting \<in> set (tasks g') \<longrightarrow>
          (\<exists>j g''. tasks g' ! j = Waiting \<and> step (Acquire j) g' = Some g''
             \<and> in_flight g'' = in_flight g' + 1 \<and> in_flight g'' \<le> nat C))"
proof (intro impI, elim conjE)
  assume start: "start_measured_phase C N = Inr g0" and run: "run_events es g0 = Some g"
  from start have C: "0 \<le> C"
    and g0: "g0 = \<lparr>permits = nat C, tasks = replicate (nat N) Waiting\<rparr>"
    by (auto simp: start_measured_phase_def split: if_splits)
  have balance: "in_flight g + permits g = nat C"
    using run_events_balance [OF run] by (simp add: g0 in_flight_start)
  then have bound: "int (in_flight g) \<le> C"
    using C by linarith
  have len: "length (tasks g) = nat N"
    using run_events_length [OF run] by (simp add: g0)
  have full: "in_flight g = nat C \<longrightarrow> (\<forall>j. step (Acquire j) g = None)"
    using balance by simp
  have admit: "\<exists>j g''. tasks g' ! j = Waiting \<and> step (Acquire j) g' = Some g''
             \<and> in_flight g'' = in_flight g' + 1 \<and> in_flight g'' \<le> nat C"
    if rel: "step (Release i) g = Some g'" and w: "Waiting \<in> set (tasks g')" for i g'
  proof -
    from rel have p: "permits g' = permits g + 1"
      by (auto split: if_splits)
    from step_balance [OF rel] balance have b': "in_flight g' + permits g' = nat C"
      by simp
    from waiting_index [OF w] obtain j where j: "j < length (tasks g')" "tasks g' ! j = Waiting"
      by blast
    define g'' where "g'' = g'\<lparr>permits := permits g' - 1, tasks := (tasks g')[j := InFlight]\<rparr>"
    have acq: "step (Acquire j) g' = Some g''"
      using j p by (simp add: g''_def)
    from step_balance [OF acq] b' have b'': "in_flight g'' + permits g'' = nat C"
      by simp
    have "permits g'' = permits g" by (simp add: g''_def p)
    with b'' b' p have up: "in_flight g'' = in_flight g' + 1" by simp
    from b'' have le: "in_flight g'' \<le> nat C" by simp
    from j(2) acq up le show ?thesis by (intro exI conjI)
  qed
  have admit_all: "\<forall>i g'. step (Release i) g = Some g' \<and> Waiting \<in> set (tasks g') \<longrightarrow>
          (\<exists>j g''. tasks g' ! j = Waiting \<and> step (Acquire j) g' = Some g''
             \<and> in_flight g'' = in_flight g' + 1 \<and> in_flight g'' \<le> nat C)"
    by (intro allI impI, elim conjE) (rule admit; assumption)
  show "int (in_flight g) \<le> C
     \<and> in_flight g + permits g = nat C
     \<and> length (tasks g) = nat N
     \<and> (in_flight g = nat C \<longrightarrow> (\<forall>j. step (Acquire j) g = None))
     \<and> (\<forall>i g'. step (Release i) g = Some g' \<and> Waiting \<in> set (tasks g') \<longrightarrow>
          (\<exists>j g''. tasks g' ! j = Waiting \<and> step (Acquire j) g' = Some g''
             \<and> in_flight g'' = in_flight g' + 1 \<and> in_flight g'' \<le> nat C))"
    by (intro conjI bound balance len full admit_all)
qed

theorem semaphore_bounds_in_flight_witness:
  "start_measured_phase 2 3 = Inr \<lparr>permits = 2, tasks = [Waiting, Waiting, Waiting]\<rparr>
   \<and> run_events [Acquire 0, Acquire 2] \<lparr>permits = 2, tasks = [Waiting, Waiting, Waiting]\<rparr>
       = Some \<lparr>permits = 0, tasks = [InFlight, Waiting, InFlight]\<rparr>
   \<and> in_flight \<lparr>permits = 0, tasks = [InFlight, Waiting, InFlight]\<rparr> = 2
   \<and> step (Acquire 1) \<lparr>permits = 0, tasks = [InFlight, Waiting, InFlight]\<rparr> = None
   \<and> step (Release 0) \<lparr>permits = 0, tasks = [InFlight, Waiting, InFlight]\<rparr>
       = Some \<lparr>permits = 1, tasks = [Finished, Waiting, InFlight]\<rparr>
   \<and> step (Acquire 1) \<lparr>permits = 1, tasks = [Finished, Waiting, InFlight]\<rparr>
       = Some \<lparr>permits = 0, tasks = [Finished, InFlight, InFlight]\<rparr>"
proof -
  have s: "start_measured_phase 2 3 = Inr \<lparr>permits = 2, tasks = [Waiting, Waiting, Waiting]\<rparr>"
    by (simp add: start_measured_phase_def numeral_3_eq_3)
  have r: "run_events [Acquire 0, Acquire 2] \<lparr>permits = 2, tasks = [Waiting, Waiting, Waiting]\<rparr>
       = Some \<lparr>permits = 0, tasks = [InFlight, Waiting, InFlight]\<rparr>"
    by simp
  show ?thesis
    using semaphore_bounds_in_flight
      [of 2 3 "\<lparr>permits = 2, tasks = [Waiting, Waiting, Waiting]\<rparr>" "[Acquire 0, Acquire 2]"
          "\<lparr>permits = 0, tasks = [InFlight, Waiting, InFlight]\<rparr>"] s r
    by (simp add: in_flight_def)
qed

text \<open>
  With no permit at all nothing ever happens: every task stays waiting, which is why a
  run with \<open>concurrency = 0\<close> and at least one request does not return.
\<close>

lemma no_permit_no_progress:
  "run_events es \<lparr>permits = 0, tasks = replicate n Waiting\<rparr> = Some g \<Longrightarrow>
   g = \<lparr>permits = 0, tasks = replicate n Waiting\<rparr>"
proof (induction es)
  case Nil
  then show ?case by simp
next
  case (Cons e es)
  have "step e \<lparr>permits = 0, tasks = replicate n Waiting\<rparr> = None"
    by (cases e) simp_all
  with Cons.prems show ?case by simp
qed

end
